theory Spec2Isabelle
  imports Complex_Main "HOL-Library.Log_Nat"
begin

section \<open>Errors of the provider service\<close>

text \<open>
  The sentinel errors of package \<open>services\<close>, the \<open>errors.New("timeout")\<close> of the poll
  loop, and every other error (transport, JSON decoding, ffmpeg) carried with its text.
  \<open>ErrMiniMaxRequestFailed\<close> is always wrapped with the provider's status message.
\<close>

datatype error =
    ErrMiniMaxAPIKeyMissing
  | ErrMiniMaxRequestFailed string
  | ErrMiniMaxJobFailed
  | ErrNarrationTooLong
  | ErrTimeout
  | ErrOther string

fun Error :: "error \<Rightarrow> string" where
  "Error ErrMiniMaxAPIKeyMissing = ''MiniMax API key is not configured''"
| "Error (ErrMiniMaxRequestFailed msg) = ''MiniMax API request failed: '' @ msg"
| "Error ErrMiniMaxJobFailed = ''MiniMax job failed''"
| "Error ErrNarrationTooLong = ''narration too long for video duration''"
| "Error ErrTimeout = ''timeout''"
| "Error (ErrOther msg) = msg"

definition IsConfigured :: "string \<Rightarrow> bool" where
  "IsConfigured apiKey = (apiKey \<noteq> [])"


section \<open>Narration speed calculator\<close>

text \<open>
  \<open>strings.Fields\<close> splits a text around runs of white space as \<open>unicode.IsSpace\<close> defines
  it. A Go string is a byte string read as UTF-8: the white space runes are the six of
  ASCII (tab, line feed, vertical tab, form feed, carriage return, space), U+0085,
  U+00A0, U+1680, U+2000 to U+200A, U+2028, U+2029, U+202F, U+205F and U+3000, listed
  here by their encodings. Every other byte, also one of a malformed sequence, belongs
  to a word.
\<close>

definition HasPrefix :: "string \<Rightarrow> string \<Rightarrow> bool" where
  "HasPrefix s p = (take (length p) s = p)"

definition space_runes :: "string list" where
  "space_runes =
    [[CHR 0x09], [CHR 0x0A], [CHR 0x0B], [CHR 0x0C], [CHR 0x0D], [CHR 0x20],
     [CHR 0xC2, CHR 0x85], [CHR 0xC2, CHR 0xA0], [CHR 0xE1, CHR 0x9A, CHR 0x80]]
    @ map (\<lambda>b. [CHR 0xE2, CHR 0x80, b])
        [CHR 0x80, CHR 0x81, CHR 0x82, CHR 0x83, CHR 0x84, CHR 0x85, CHR 0x86, CHR 0x87,
         CHR 0x88, CHR 0x89, CHR 0x8A, CHR 0xA8, CHR 0xA9, CHR 0xAF]
    @ [[CHR 0xE2, CHR 0x81, CHR 0x9F], [CHR 0xE3, CHR 0x80, CHR 0x80]]"

text \<open>The number of bytes of the white space rune a string starts with, \<open>0\<close> when it
  starts with none.\<close>

definition space_width :: "string list \<Rightarrow> string \<Rightarrow> nat" where
  "space_width runes s = (case find (HasPrefix s) runes of None \<Rightarrow> 0 | Some p \<Rightarrow> length p)"

text \<open>\<open>Fields_from k w s\<close>: \<open>w\<close> is the word read so far and \<open>k\<close> the number of bytes of
  \<open>s\<close> that still belong to the white space rune being skipped.\<close>

fun Fields_from :: "nat \<Rightarrow> string \<Rightarrow> string \<Rightarrow> string list" where
  "Fields_from k w [] = (if w = [] then [] else [w])"
| "Fields_from (Suc k) w (c # cs) = Fields_from k w cs"
| "Fields_from 0 w (c # cs) =
     (case space_width space_runes (c # cs) of
        0 \<Rightarrow> Fields_from 0 (w @ [c]) cs
      | Suc k \<Rightarrow> (if w = [] then Fields_from k [] cs else w # Fields_from k [] cs))"

definition Fields :: "string \<Rightarrow> string list" where
  "Fields s = Fields_from 0 [] s"

text \<open>
  Go's \<open>float64\<close> is IEEE 754 binary64. A finite \<open>float64\<close> is modelled as the rational it
  denotes, and every operation rounds its exact result to the nearest number with a
  53-bit significand, ties to the even significand: \<open>ilog2 x\<close> is the exponent of a
  positive \<open>x\<close> (\<open>2 ^ ilog2 x \<le> x < 2 ^ (ilog2 x + 1)\<close>), and \<open>f64 x\<close> rounds \<open>x\<close> at the
  53 leading bits. The exponent is not bounded: overflow, subnormal numbers and the
  sign of zero are left out, and the calculator meets none of them (its values are
  quotients and products of word counts, durations and small constants). A literal
  such as \<open>1.3\<close> is the \<open>float64\<close> nearest to it, \<open>f64 (13 / 10)\<close>; \<open>0.5\<close>, \<open>1.5\<close>, \<open>2.5\<close>
  and \<open>10\<close> are exact.
\<close>

definition round_half_even :: "rat \<Rightarrow> int" where
  "round_half_even x =
    (let f = \<lfloor>x\<rfloor>; r = x - of_int f
     in if r < 1 / 2 then f else if 1 / 2 < r then f + 1 else if even f then f else f + 1)"

definition ilog2 :: "rat \<Rightarrow> int" where
  "ilog2 x =
    (let k = bitlen (fst (quotient_of x)) - bitlen (snd (quotient_of x))
     in if 2 powi k \<le> x then k else k - 1)"

definition f64 :: "rat \<Rightarrow> rat" where
  "f64 x =
    (if x = 0 then 0
     else let e = ilog2 \<bar>x\<bar> - 52 in of_int (round_half_even (x / 2 powi e)) * 2 powi e)"

text \<open>The conversion \<open>float64(n)\<close> of an integer and the three operations the code uses.
  The callers of \<open>fdiv\<close> treat a zero divisor themselves.\<close>

definition float64 :: "int \<Rightarrow> rat" where
  "float64 n = f64 (of_int n)"

definition fsub :: "rat \<Rightarrow> rat \<Rightarrow> rat" where
  "fsub x y = f64 (x - y)"

definition fmul :: "rat \<Rightarrow> rat \<Rightarrow> rat" where
  "fmul x y = f64 (x * y)"

definition fdiv :: "rat \<Rightarrow> rat \<Rightarrow> rat" where
  "fdiv x y = f64 (x / y)"

text \<open>Go's conversion \<open>int(x)\<close> of a float truncates toward zero.\<close>

definition go_int :: "rat \<Rightarrow> int" where
  "go_int x = (if 0 \<le> x then \<lfloor>x\<rfloor> else \<lceil>x\<rceil>)"

definition EstimateTTSDuration :: "string \<Rightarrow> rat" where
  "EstimateTTSDuration text = fdiv (float64 (int (length (Fields text)))) (5 / 2)"

text \<open>
  The result is Go's pair \<open>(float64, error)\<close>: the callers read the number even when
  they drop the error. A division of a positive float by zero gives \<open>+Inf\<close> in Go, which
  is larger than \<open>1.5\<close>: the model writes that branch out. (The estimate is then
  positive: a zero estimate has returned \<open>1.0\<close> before.)
\<close>

definition CalculateOptimalSpeed :: "string \<Rightarrow> int \<Rightarrow> rat \<times> error option" where
  "CalculateOptimalSpeed text videoDuration =
    (let estimatedDuration = EstimateTTSDuration text;
         targetDuration = fsub (float64 videoDuration) (1 / 2);
         targetDuration = (if targetDuration \<le> 0 then float64 videoDuration else targetDuration)
     in if estimatedDuration \<le> targetDuration then (1, None)
        else if targetDuration = 0 then (0, Some ErrNarrationTooLong)
        else
          (let requiredSpeed = fdiv estimatedDuration targetDuration in
           if requiredSpeed > f64 (13 / 10) then
             (if requiredSpeed > 3 / 2 then (0, Some ErrNarrationTooLong) else (f64 (13 / 10), None))
           else (fdiv (float64 (go_int (fmul requiredSpeed 10))) 10, None)))"

text \<open>
  The speed calculator as the specification words it (\<open>EstimateSpeed\<close>, section 4.4), its
  arithmetic read as the program's \<open>float64\<close> arithmetic: the last case is the required
  speed floored to a multiple of \<open>0.1\<close>. A zero target with a positive estimate is read
  as an infinite required speed.
\<close>

definition spec_EstimateSpeed :: "string \<Rightarrow> int \<Rightarrow> rat \<times> error option" where
  "spec_EstimateSpeed text d =
    (let estimatedSeconds = fdiv (float64 (int (length (Fields text)))) (5 / 2);
         target = (if fsub (float64 d) (1 / 2) \<le> 0 then float64 d else fsub (float64 d) (1 / 2))
     in if estimatedSeconds \<le> target then (1, None)
        else if target = 0 then (0, Some ErrNarrationTooLong)
        else if fdiv estimatedSeconds target > 3 / 2 then (0, Some ErrNarrationTooLong)
        else if fdiv estimatedSeconds target > f64 (13 / 10) then (f64 (13 / 10), None)
        else (fdiv (float64 \<lfloor>fmul (fdiv estimatedSeconds target) 10\<rfloor>) 10, None))"


section \<open>Requests sent to the provider\<close>

text \<open>
  Each service method builds a request body, posts it, decodes the answer and checks the
  provider's status code. The round trip (HTTP and JSON decoding) is a parameter
  \<open>http\<close>: a function from the body that is sent to either an error or the decoded
  answer.
\<close>

record TTSVoiceSetting =
  VoiceID :: string
  Speed :: rat
  Vol :: rat
  Pitch :: int

record TTSAudioSetting =
  tts_SampleRate :: int
  tts_Bitrate :: int
  tts_Format :: string

record TTSRequest =
  tts_Model :: string
  tts_Text :: string
  tts_VoiceSetting :: TTSVoiceSetting
  tts_AudioSetting :: TTSAudioSetting

record TTSResponse =
  ttsr_StatusCode :: int
  ttsr_StatusMsg :: string
  ttsr_Audio :: string

text \<open>The body \<open>reqBody\<close> of \<open>GenerateTTSWithSpeed\<close>, after the voice default and the
  two speed clamps.\<close>

definition TTSRequest_body :: "string \<Rightarrow> string \<Rightarrow> rat \<Rightarrow> TTSRequest" where
  "TTSRequest_body text voiceID speed =
    (let voiceID = (if voiceID = [] then ''male-qn-qingse'' else voiceID);
         speed = (if speed < 1 / 2 then 1 / 2 else speed);
         speed = (if speed > 2 then 2 else speed)
     in \<lparr> tts_Model = ''speech-01-turbo'', tts_Text = text,
          tts_VoiceSetting = \<lparr> VoiceID = voiceID, Speed = speed, Vol = 1, Pitch = 0 \<rparr>,
          tts_AudioSetting = \<lparr> tts_SampleRate = 32000, tts_Bitrate = 128000, tts_Format = ''mp3'' \<rparr> \<rparr>)"

definition GenerateTTSWithSpeed ::
  "string \<Rightarrow> (TTSRequest \<Rightarrow> error + TTSResponse) \<Rightarrow> string \<Rightarrow> string \<Rightarrow> rat \<Rightarrow> error + TTSResponse" where
  "GenerateTTSWithSpeed apiKey http text voiceID speed =
    (if \<not> IsConfigured apiKey then Inl ErrMiniMaxAPIKeyMissing
     else case http (TTSRequest_body text voiceID speed) of
            Inl err \<Rightarrow> Inl err
          | Inr result \<Rightarrow>
              if ttsr_StatusCode result \<noteq> 0 then Inl (ErrMiniMaxRequestFailed (ttsr_StatusMsg result))
              else Inr result)"

record VideoGenerationRequest =
  vq_Model :: string
  vq_Prompt :: string
  vq_Duration :: int
  vq_Resolution :: string

record VideoResponse =
  vr_StatusCode :: int
  vr_StatusMsg :: string
  vr_TaskID :: string

definition isHailuo02 :: "string \<Rightarrow> bool" where
  "isHailuo02 model = (model = ''MiniMax-Hailuo-02'' \<or> model = ''hailuo-02'')"

text \<open>The body \<open>reqBody\<close> of \<open>MiniMaxService.GenerateVideo\<close>. Its \<open>Resolution\<close> stays
  empty (and is left out of the JSON) for a model outside the Hailuo-02 family.\<close>

definition VideoGenerationRequest_body :: "string \<Rightarrow> int \<Rightarrow> string \<Rightarrow> string \<Rightarrow> VideoGenerationRequest" where
  "VideoGenerationRequest_body prompt duration resolution model =
    (let model = (if model = [] then ''video-01'' else model);
         maxDuration = (if isHailuo02 model \<and> resolution \<noteq> ''1080P'' then 10 else 6);
         duration = (if duration \<le> 0 then 6 else duration);
         duration = (if duration > maxDuration then maxDuration else duration);
         resolution = (if duration > 6 then ''768P'' else resolution);
         reqBody = \<lparr> vq_Model = model, vq_Prompt = prompt, vq_Duration = duration, vq_Resolution = [] \<rparr>
     in if isHailuo02 model then
          (let resolution = (if resolution = [] then ''768P'' else resolution)
           in reqBody\<lparr> vq_Resolution := resolution \<rparr>)
        else reqBody)"

definition MiniMaxService_GenerateVideo ::
  "string \<Rightarrow> (VideoGenerationRequest \<Rightarrow> error + VideoResponse) \<Rightarrow> string \<Rightarrow> int \<Rightarrow> string \<Rightarrow> string
    \<Rightarrow> error + VideoResponse" where
  "MiniMaxService_GenerateVideo apiKey http prompt duration resolution model =
    (if \<not> IsConfigured apiKey then Inl ErrMiniMaxAPIKeyMissing
     else case http (VideoGenerationRequest_body prompt duration resolution model) of
            Inl err \<Rightarrow> Inl err
          | Inr result \<Rightarrow>
              if vr_StatusCode result \<noteq> 0 then Inl (ErrMiniMaxRequestFailed (vr_StatusMsg result))
              else Inr result)"

text \<open>The timeout, in seconds, that the video pipeline of the handler passes to the poll
  loop.\<close>

definition pollTimeout :: "string \<Rightarrow> nat" where
  "pollTimeout model = (if model = ''MiniMax-Hailuo-02'' then 600 else 300)"


section \<open>Task poller\<close>

record MiniMaxTaskStatus =
  ts_StatusCode :: int
  ts_StatusMsg :: string
  ts_Status :: string
  ts_FileID :: string
  ts_DownloadURL :: string

record FileRetrieveResponse =
  fr_StatusCode :: int
  fr_StatusMsg :: string
  fr_DownloadURL :: string

text \<open>\<open>GetTaskStatus\<close> and \<open>GetFileDownloadURL\<close>: \<open>http\<close> is the outcome of the round
  trip of this call.\<close>

definition GetTaskStatus :: "string \<Rightarrow> error + MiniMaxTaskStatus \<Rightarrow> error + MiniMaxTaskStatus" where
  "GetTaskStatus apiKey http =
    (if \<not> IsConfigured apiKey then Inl ErrMiniMaxAPIKeyMissing
     else case http of
            Inl err \<Rightarrow> Inl err
          | Inr result \<Rightarrow>
              if ts_StatusCode result \<noteq> 0 then Inl (ErrMiniMaxRequestFailed (ts_StatusMsg result))
              else Inr result)"

definition GetFileDownloadURL :: "string \<Rightarrow> error + FileRetrieveResponse \<Rightarrow> error + string" where
  "GetFileDownloadURL apiKey http =
    (if \<not> IsConfigured apiKey then Inl ErrMiniMaxAPIKeyMissing
     else case http of
            Inl err \<Rightarrow> Inl err
          | Inr result \<Rightarrow>
              if fr_StatusCode result \<noteq> 0 then Inl (ErrMiniMaxRequestFailed (fr_StatusMsg result))
              else Inr (fr_DownloadURL result))"

text \<open>
  One firing of the 5-second ticker, as the environment presents it to the loop: the
  clock reading \<open>time.Now()\<close> (in seconds), what the status query answers at that moment,
  and what the file lookup answers if the loop makes it.
\<close>

record tick =
  tk_now :: nat
  tk_status :: "error + MiniMaxTaskStatus"
  tk_file :: "error + FileRetrieveResponse"

text \<open>
  The \<open>for { select { case <-ticker.C: ... } }\<close> loop of \<open>WaitForCompletion\<close>, by
  recursion on the ticks still to come. The loop has not returned when the ticks given
  are used up: that is the value \<open>None\<close>.
\<close>

fun WaitForCompletion_loop :: "string \<Rightarrow> nat \<Rightarrow> tick list \<Rightarrow> (error + MiniMaxTaskStatus) option" where
  "WaitForCompletion_loop apiKey deadline [] = None"
| "WaitForCompletion_loop apiKey deadline (t # ts) =
    (if tk_now t > deadline then Some (Inl ErrTimeout)
     else case GetTaskStatus apiKey (tk_status t) of
            Inl err \<Rightarrow> WaitForCompletion_loop apiKey deadline ts
          | Inr status \<Rightarrow>
              if ts_Status status = ''Success'' \<or> ts_Status status = ''Completed'' then
                (if ts_FileID status \<noteq> [] then
                   (case GetFileDownloadURL apiKey (tk_file t) of
                      Inl err \<Rightarrow> Some (Inl err)
                    | Inr url \<Rightarrow> Some (Inr (status\<lparr> ts_DownloadURL := url \<rparr>)))
                 else Some (Inr status))
              else if ts_Status status = ''Failed'' \<or> ts_Status status = ''Error'' then
                Some (Inl ErrMiniMaxJobFailed)
              else WaitForCompletion_loop apiKey deadline ts)"

text \<open>\<open>now\<close> is the clock reading when \<open>WaitForCompletion\<close> is entered; the deadline is
  \<open>time.Now().Add(timeout)\<close>.\<close>

definition WaitForCompletion :: "string \<Rightarrow> nat \<Rightarrow> nat \<Rightarrow> tick list \<Rightarrow> (error + MiniMaxTaskStatus) option" where
  "WaitForCompletion apiKey now timeout ticks = WaitForCompletion_loop apiKey (now + timeout) ticks"

text \<open>What one tick within the deadline does to the loop: the label it reads, if any.\<close>

definition tick_label :: "string \<Rightarrow> tick \<Rightarrow> string option" where
  "tick_label apiKey t =
    (case GetTaskStatus apiKey (tk_status t) of Inl err \<Rightarrow> None | Inr status \<Rightarrow> Some (ts_Status status))"

definition terminal_label :: "string \<Rightarrow> bool" where
  "terminal_label l = (l = ''Success'' \<or> l = ''Completed'' \<or> l = ''Failed'' \<or> l = ''Error'')"

text \<open>A tick that is within the deadline and leaves the loop running: the query failed,
  or its label is not one of the four terminal ones.\<close>

definition tick_continues :: "string \<Rightarrow> nat \<Rightarrow> tick \<Rightarrow> bool" where
  "tick_continues apiKey deadline t =
    (\<not> tk_now t > deadline \<and>
     (case tick_label apiKey t of None \<Rightarrow> True | Some l \<Rightarrow> \<not> terminal_label l))"


section \<open>Notification hub\<close>

text \<open>
  A connection is a pointer \<open>*websocket.Conn\<close>: here a number. The hub's \<open>clients\<close> map
  is an association list with at most one entry for a connection; its order stands for
  the order in which Go happens to range over the map. The mutex is not modelled: each
  method runs as one step.
\<close>

type_synonym conn = nat

record WSHub =
  clients :: "(conn \<times> nat) list"

definition Register :: "WSHub \<Rightarrow> conn \<Rightarrow> nat \<Rightarrow> WSHub" where
  "Register h c userID = h\<lparr> clients := (c, userID) # filter (\<lambda>e. fst e \<noteq> c) (clients h) \<rparr>"

definition Unregister :: "WSHub \<Rightarrow> conn \<Rightarrow> WSHub" where
  "Unregister h c = h\<lparr> clients := filter (\<lambda>e. fst e \<noteq> c) (clients h) \<rparr>"

text \<open>
  The transport under the connections: whether a write on a connection succeeds, what
  each connection has received, and the log of every \<open>WriteJSON\<close> call made.
\<close>

record 'm Net =
  conn_up :: "conn \<Rightarrow> bool"
  received :: "conn \<Rightarrow> 'm list"
  write_calls :: "(conn \<times> 'm) list"

definition WriteJSON :: "conn \<Rightarrow> 'm \<Rightarrow> 'm Net \<Rightarrow> error option \<times> 'm Net" where
  "WriteJSON c msg n =
    (let n = n\<lparr> write_calls := write_calls n @ [(c, msg)] \<rparr>
     in if conn_up n c then (None, n\<lparr> received := (received n)(c := received n c @ [msg]) \<rparr>)
        else (Some (ErrOther ''write failed''), n))"

text \<open>\<open>SendToUser\<close> ranges over the clients and drops the error of each write.\<close>

fun SendToUser_range :: "(conn \<times> nat) list \<Rightarrow> nat \<Rightarrow> 'm \<Rightarrow> 'm Net \<Rightarrow> 'm Net" where
  "SendToUser_range [] userID message n = n"
| "SendToUser_range (client # rest) userID message n =
    (if snd client = userID then SendToUser_range rest userID message (snd (WriteJSON (fst client) message n))
     else SendToUser_range rest userID message n)"

definition SendToUser :: "WSHub \<Rightarrow> nat \<Rightarrow> 'm \<Rightarrow> 'm Net \<Rightarrow> 'm Net" where
  "SendToUser h userID message n = SendToUser_range (clients h) userID message n"

text \<open>The connections of a user in the registry.\<close>

definition conns_of :: "WSHub \<Rightarrow> nat \<Rightarrow> conn list" where
  "conns_of h userID = map fst (filter (\<lambda>e. snd e = userID) (clients h))"

definition registry_ok :: "WSHub \<Rightarrow> bool" where
  "registry_ok h = distinct (map fst (clients h))"


section \<open>Persistent records and requests\<close>

datatype GenerationType = TypeMusic | TypeVideo

datatype GenerationStatus = StatusPending | StatusProcessing | StatusCompleted | StatusFailed

text \<open>\<open>models.Generation\<close> without its timestamps and its preloaded \<open>User\<close>.\<close>

record Generation =
  g_ID :: nat
  g_UserID :: nat
  g_Type :: GenerationType
  g_Status :: GenerationStatus
  g_Title :: string
  g_Prompt :: string
  g_Lyrics :: string
  g_Narration :: string
  g_VoiceID :: string
  g_Style :: string
  g_Duration :: int
  g_Resolution :: string
  g_Model :: string
  g_OutputURL :: string
  g_ThumbnailURL :: string
  g_MiniMaxJobID :: string
  g_ErrorMessage :: string
  g_Metadata :: string
  g_CreditsCost :: int
  g_IsFavorite :: bool
  g_IsPublic :: bool

text \<open>\<open>models.User\<close>: the columns the generation handlers read.\<close>

record User =
  u_ID :: nat
  u_Credits :: int

record CreditTransaction =
  ct_UserID :: nat
  ct_Amount :: int
  ct_Type :: string
  ct_Description :: string
  ct_GenerationID :: "nat option"
  ct_BalanceBefore :: int
  ct_BalanceAfter :: int

record GenerateMusicRequest =
  mreq_Model :: string
  mreq_Format :: string
  mreq_Bitrate :: int
  mreq_Title :: string
  mreq_Prompt :: string
  mreq_Lyrics :: string
  mreq_Style :: string

record GenerateVideoRequest =
  vreq_Title :: string
  vreq_Prompt :: string
  vreq_Duration :: int
  vreq_Resolution :: string
  vreq_Model :: string
  vreq_Narration :: string
  vreq_VoiceID :: string

text \<open>
  A \<open>fiber.Map\<close> pushed to the clients: its \<open>type\<close>, the generation it carries (the
  handler sends \<open>generation.ToResponse()\<close>, a field by field copy) and its other
  entries.
\<close>

datatype message = Message string Generation "(string \<times> string) list"

text \<open>The answer of a handler: an error answer with its status code, \<open>error\<close> and
  \<open>message\<close>, or an answer with status code, \<open>message\<close> and the generation.\<close>

datatype response =
    ErrorResponse nat string string
  | GenerationResponse nat string Generation

text \<open>Decimal printing, for \<open>fmt.Sprintf("%d", ...)\<close>.\<close>

fun show_nat :: "nat \<Rightarrow> string" where
  "show_nat n = (if n < 10 then [char_of (48 + n)] else show_nat (n div 10) @ [char_of (48 + n mod 10)])"

declare show_nat.simps [simp del]

definition show_int :: "int \<Rightarrow> string" where
  "show_int i = (if i < 0 then CHR ''-'' # show_nat (nat (- i)) else show_nat (nat i))"

text \<open>\<open>strings.TrimSpace\<close> removes the white space runes at both ends: \<open>trim_from\<close> those
  a string starts with, and at the end those of the reversed string, read against the
  reversed encodings.\<close>

fun trim_from :: "string list \<Rightarrow> nat \<Rightarrow> string \<Rightarrow> string" where
  "trim_from runes k [] = []"
| "trim_from runes (Suc k) (c # cs) = trim_from runes k cs"
| "trim_from runes 0 (c # cs) =
     (case space_width runes (c # cs) of 0 \<Rightarrow> c # cs | Suc k \<Rightarrow> trim_from runes k cs)"

definition TrimSpace :: "string \<Rightarrow> string" where
  "TrimSpace s = rev (trim_from (map rev space_runes) 0 (rev (trim_from space_runes 0 s)))"

text \<open>\<open>middleware.SanitizeInput\<close>: NUL bytes removed, white space trimmed at both ends,
  then the five characters replaced in one pass.\<close>

definition html_replace :: "char \<Rightarrow> string" where
  "html_replace c =
    (if c = CHR ''<'' then ''&lt;''
     else if c = CHR ''>'' then ''&gt;''
     else if c = CHR 0x22 then ''&quot;''
     else if c = CHR 0x27 then ''&#39;''
     else if c = CHR ''&'' then ''&amp;''
     else [c])"

definition SanitizeInput :: "string \<Rightarrow> string" where
  "SanitizeInput input = concat (map html_replace (TrimSpace (filter (\<lambda>c. c \<noteq> CHR 0x00) input)))"


section \<open>The other provider calls\<close>

record AudioSetting =
  as_Channel :: int
  as_SampleRate :: int
  as_Bitrate :: int
  as_Format :: string

record MusicGenerationRequest =
  mq_Model :: string
  mq_Prompt :: string
  mq_Lyrics :: string
  mq_AudioSetting :: AudioSetting

record MusicResponse =
  mr_StatusCode :: int
  mr_StatusMsg :: string
  mr_Audio :: string
  mr_ExtraInfo :: string

definition MiniMaxService_GenerateMusic ::
  "string \<Rightarrow> (MusicGenerationRequest \<Rightarrow> error + MusicResponse) \<Rightarrow> string \<Rightarrow> string \<Rightarrow> string \<Rightarrow> string \<Rightarrow> int
    \<Rightarrow> error + MusicResponse" where
  "MiniMaxService_GenerateMusic apiKey http prompt lyrics format model bitrate =
    (if \<not> IsConfigured apiKey then Inl ErrMiniMaxAPIKeyMissing
     else case http \<lparr> mq_Model = model, mq_Prompt = prompt, mq_Lyrics = lyrics,
                      mq_AudioSetting = \<lparr> as_Channel = 2, as_SampleRate = 44100,
                                          as_Bitrate = bitrate, as_Format = format \<rparr> \<rparr> of
            Inl err \<Rightarrow> Inl err
          | Inr result \<Rightarrow>
              if mr_StatusCode result \<noteq> 0 then Inl (ErrMiniMaxRequestFailed (mr_StatusMsg result))
              else Inr result)"

record ImageGenerationRequest =
  iq_Model :: string
  iq_Prompt :: string
  iq_AspectRatio :: string

record ImageGenerationResponse =
  ir_StatusCode :: int
  ir_StatusMsg :: string
  ir_ImageURLs :: "string list"

text \<open>
  \<open>GenerateImage\<close> logs \<open>string(body)[:200]\<close> before it decodes the body: the slice
  panics when the body has fewer than 200 bytes. The round trip gives a transport error
  or the length of the body with the outcome of decoding it; the result \<open>None\<close> is the
  panic.
\<close>

definition MiniMaxService_GenerateImage ::
  "string \<Rightarrow> (ImageGenerationRequest \<Rightarrow> error + nat \<times> (error + ImageGenerationResponse)) \<Rightarrow> string
    \<Rightarrow> (error + string) option" where
  "MiniMaxService_GenerateImage apiKey http prompt =
    (if \<not> IsConfigured apiKey then Some (Inl ErrMiniMaxAPIKeyMissing)
     else case http \<lparr> iq_Model = ''image-01'', iq_Prompt = prompt, iq_AspectRatio = ''1:1'' \<rparr> of
            Inl err \<Rightarrow> Some (Inl err)
          | Inr (len, decoded) \<Rightarrow>
              if len < 200 then None
              else (case decoded of
                      Inl err \<Rightarrow> Some (Inl err)
                    | Inr result \<Rightarrow>
                        if ir_StatusCode result \<noteq> 0 then
                          Some (Inl (ErrMiniMaxRequestFailed (ir_StatusMsg result)))
                        else (case ir_ImageURLs result of
                                url # _ \<Rightarrow> Some (Inr url)
                              | [] \<Rightarrow> Some (Inl (ErrOther ''no image generated'')))))"

text \<open>\<open>hex.DecodeString\<close> succeeds on an even number of hexadecimal digits.\<close>

definition is_hex_digit :: "char \<Rightarrow> bool" where
  "is_hex_digit c = (c \<in> set ''0123456789abcdefABCDEF'')"

definition hex_DecodeString_ok :: "string \<Rightarrow> bool" where
  "hex_DecodeString_ok s = (even (length s) \<and> list_all is_hex_digit s)"


section \<open>The world of the orchestrator\<close>

text \<open>
  What the provider, the file system and the database do during one run of a pipeline:
  the round trips of the service calls, the outcome of \<open>os.WriteFile\<close>, the clock and the
  ticks seen by the poll loop, the outcome of \<open>CombineVideoWithAudio\<close> (download and
  ffmpeg), and the error each write to the database returns: the \<open>db.Save\<close> that records
  the provider's task id, the \<open>db.Save\<close> of the final status, the update of the user's
  credits and the insert of the ledger entry. PostgreSQL refuses, for example, a row
  whose \<open>OutputURL\<close> or \<open>ThumbnailURL\<close> has more than the 500 characters of its column, or
  whose \<open>MiniMaxJobID\<close> has more than 100.
\<close>

record Env =
  e_music :: "MusicGenerationRequest \<Rightarrow> error + MusicResponse"
  e_writeFile :: "error option"
  e_image :: "ImageGenerationRequest \<Rightarrow> error + nat \<times> (error + ImageGenerationResponse)"
  e_video :: "VideoGenerationRequest \<Rightarrow> error + VideoResponse"
  e_now :: nat
  e_ticks :: "tick list"
  e_tts :: "TTSRequest \<Rightarrow> error + TTSResponse"
  e_combine :: "error option"
  e_dbSaveJobID :: "error option"
  e_dbSave :: "error option"
  e_dbUpdate :: "error option"
  e_dbCreate :: "error option"

text \<open>
  The variables a handler's \<open>go func()\<close> closes over: the goroutine works on the
  handler's own \<open>user\<close> (read when the request came in) and \<open>generation\<close>.
\<close>

record MusicTask =
  mt_userID :: nat
  mt_user :: User
  mt_req :: GenerateMusicRequest
  mt_generation :: Generation

record VideoTask =
  vt_userID :: nat
  vt_user :: User
  vt_req :: GenerateVideoRequest
  vt_generation :: Generation
  vt_model :: string
  vt_duration :: int
  vt_resolution :: string
  vt_creditCost :: int

datatype task = Music MusicTask | Video VideoTask

text \<open>
  The database tables (users, generations with their auto-increment key, credit
  transactions), the hub with the transport under it, and the goroutines that have been
  started and have not run yet. The listing cache is left out: it is written and
  invalidated only, and nothing here reads it.
\<close>

record World =
  users :: "nat \<Rightarrow> User option"
  generations :: "Generation list"
  next_generation_id :: nat
  credit_transactions :: "CreditTransaction list"
  hub :: WSHub
  net :: "message Net"
  tasks :: "task list"

text \<open>\<open>db.Create(&generation)\<close> gives the row the next key.\<close>

definition db_Create_generation :: "Generation \<Rightarrow> World \<Rightarrow> Generation \<times> World" where
  "db_Create_generation g w =
    (let g = g\<lparr> g_ID := next_generation_id w \<rparr>
     in (g, w\<lparr> generations := generations w @ [g],
               next_generation_id := Suc (next_generation_id w) \<rparr>))"

text \<open>
  \<open>db.Save(&generation)\<close> writes every field of the row with the generation's key (and
  inserts the row when there is none). The writes the goroutines and the demo branches
  make return an error that no caller reads: \<open>res\<close> is that error, and a write that
  failed has left the table as it was.
\<close>

definition save_rows :: "Generation \<Rightarrow> Generation list \<Rightarrow> Generation list" where
  "save_rows g rows =
    (if g_ID g \<in> set (map g_ID rows) then map (\<lambda>r. if g_ID r = g_ID g then g else r) rows
     else rows @ [g])"

definition db_Save :: "error option \<Rightarrow> Generation \<Rightarrow> World \<Rightarrow> World" where
  "db_Save res g w =
    (case res of
       Some err \<Rightarrow> w
     | None \<Rightarrow> w\<lparr> generations := save_rows g (generations w) \<rparr>)"

text \<open>\<open>db.Model(&user).Update("credits", gorm.Expr("credits - ?", n))\<close>: one SQL update
  of the stored row; the handler's \<open>user\<close> value keeps the credits it was read with.\<close>

definition db_Update_credits :: "error option \<Rightarrow> User \<Rightarrow> int \<Rightarrow> World \<Rightarrow> World" where
  "db_Update_credits res user n w =
    (case res of
       Some err \<Rightarrow> w
     | None \<Rightarrow>
         (case users w (u_ID user) of
            None \<Rightarrow> w
          | Some row \<Rightarrow> w\<lparr> users := (users w)(u_ID user \<mapsto> row\<lparr> u_Credits := u_Credits row - n \<rparr>) \<rparr>))"

definition db_Create_transaction :: "error option \<Rightarrow> CreditTransaction \<Rightarrow> World \<Rightarrow> World" where
  "db_Create_transaction res ct w =
    (case res of
       Some err \<Rightarrow> w
     | None \<Rightarrow> w\<lparr> credit_transactions := credit_transactions w @ [ct] \<rparr>)"

text \<open>\<open>hub.SendToUser(userID, message)\<close> on the global hub.\<close>

definition notify :: "nat \<Rightarrow> message \<Rightarrow> World \<Rightarrow> World" where
  "notify userID m w = w\<lparr> net := SendToUser (hub w) userID m (net w) \<rparr>"


section \<open>Submission handlers\<close>

text \<open>
  The handlers from the user lookup on: the body has been parsed and the field
  validation has passed. \<open>createOK\<close> tells whether \<open>db.Create(&generation)\<close> succeeds.
  A handler answers, changes the world and may leave a goroutine in \<open>tasks\<close>. In demo
  mode the handler saves the row it has just inserted, with a fixed URL of fewer than
  500 characters added: that write is taken to succeed as the insert did.
\<close>

text \<open>The \<open>models.Generation\<close> literals of the two handlers; fields they leave out
  have Go's zero value.\<close>

definition music_generation :: "nat \<Rightarrow> GenerateMusicRequest \<Rightarrow> Generation" where
  "music_generation userID req =
    \<lparr> g_ID = 0, g_UserID = userID, g_Type = TypeMusic, g_Status = StatusProcessing,
      g_Title = SanitizeInput (mreq_Title req), g_Prompt = SanitizeInput (mreq_Prompt req),
      g_Lyrics = SanitizeInput (mreq_Lyrics req), g_Narration = [], g_VoiceID = [],
      g_Style = SanitizeInput (mreq_Style req), g_Duration = 0, g_Resolution = [],
      g_Model = [], g_OutputURL = [], g_ThumbnailURL = [], g_MiniMaxJobID = [],
      g_ErrorMessage = [], g_Metadata = [], g_CreditsCost = 1,
      g_IsFavorite = False, g_IsPublic = False \<rparr>"

definition video_generation :: "nat \<Rightarrow> GenerateVideoRequest \<Rightarrow> string \<Rightarrow> int \<Rightarrow> string \<Rightarrow> int \<Rightarrow> Generation" where
  "video_generation userID req model duration resolution creditCost =
    \<lparr> g_ID = 0, g_UserID = userID, g_Type = TypeVideo, g_Status = StatusProcessing,
      g_Title = SanitizeInput (vreq_Title req), g_Prompt = SanitizeInput (vreq_Prompt req),
      g_Lyrics = [], g_Narration = SanitizeInput (vreq_Narration req),
      g_VoiceID = vreq_VoiceID req, g_Style = [], g_Duration = duration,
      g_Resolution = resolution, g_Model = model, g_OutputURL = [],
      g_ThumbnailURL = [], g_MiniMaxJobID = [], g_ErrorMessage = [], g_Metadata = [],
      g_CreditsCost = creditCost, g_IsFavorite = False, g_IsPublic = False \<rparr>"

definition GenerateMusic :: "string \<Rightarrow> bool \<Rightarrow> nat \<Rightarrow> GenerateMusicRequest \<Rightarrow> World \<Rightarrow> response \<times> World" where
  "GenerateMusic apiKey createOK userID req w =
    (case users w userID of
       None \<Rightarrow> (ErrorResponse 404 ''Not Found'' ''User not found'', w)
     | Some user \<Rightarrow>
         if u_Credits user < 1 then
           (ErrorResponse 402 ''Payment Required'' ''Insufficient credits. Please upgrade your plan.'', w)
         else if \<not> createOK then
           (ErrorResponse 500 ''Internal Server Error'' ''Failed to create generation'', w)
         else
           (let (generation, w) = db_Create_generation (music_generation userID req) w;
                w = notify userID (Message ''generation_started'' generation []) w
            in if \<not> IsConfigured apiKey then
                 (let generation = generation\<lparr> g_Status := StatusCompleted,
                        g_OutputURL := ''https://www.soundhelix.com/examples/mp3/SoundHelix-Song-1.mp3'' \<rparr>;
                      w = db_Save None generation w;
                      w = notify userID (Message ''generation_completed'' generation []) w
                  in (GenerationResponse 200 ''Music generated (demo mode)'' generation, w))
               else
                 (GenerationResponse 202 ''Music generation started'' generation,
                  w\<lparr> tasks := tasks w @ [Music \<lparr> mt_userID = userID, mt_user = user, mt_req = req,
                                                mt_generation = generation \<rparr>] \<rparr>)))"

definition GenerateVideo :: "string \<Rightarrow> bool \<Rightarrow> nat \<Rightarrow> GenerateVideoRequest \<Rightarrow> World \<Rightarrow> response \<times> World" where
  "GenerateVideo apiKey createOK userID req w =
    (case users w userID of
       None \<Rightarrow> (ErrorResponse 404 ''Not Found'' ''User not found'', w)
     | Some user \<Rightarrow>
         (let creditCost = (if vreq_Narration req \<noteq> [] then 3 else 2) in
          if u_Credits user < creditCost then
            (ErrorResponse 402 ''Payment Required'' ''Insufficient credits. Please upgrade your plan.'', w)
          else
            (let model = (if vreq_Model req = [] then ''video-01'' else vreq_Model req);
                 duration = (if vreq_Duration req = 0 then 6 else vreq_Duration req);
                 resolution = (if vreq_Resolution req = [] then ''768P'' else vreq_Resolution req)
             in if vreq_Narration req \<noteq> []
                   \<and> snd (CalculateOptimalSpeed (vreq_Narration req) duration) = Some ErrNarrationTooLong then
                  (let wordCount = int (length (Fields (vreq_Narration req)));
                       maxWords = go_int (fmul (fmul (float64 duration) (5 / 2)) (f64 (13 / 10)))
                   in (ErrorResponse 400 ''Narration Too Long''
                         (''Narration has '' @ show_int wordCount @ '' words, max ~'' @ show_int maxWords
                            @ '' words for '' @ show_int duration @ ''s video.''), w))
                else if \<not> createOK then
                  (ErrorResponse 500 ''Internal Server Error'' ''Failed to create generation'', w)
                else
                  (let (generation, w) = db_Create_generation (video_generation userID req model duration resolution creditCost) w;
                       w = notify userID (Message ''generation_started'' generation []) w
                   in if \<not> IsConfigured apiKey then
                        (let generation = generation\<lparr> g_Status := StatusCompleted,
                               g_OutputURL := ''https://www.w3schools.com/html/mov_bbb.mp4'' \<rparr>;
                             w = db_Save None generation w;
                             w = notify userID (Message ''generation_completed'' generation []) w
                         in (GenerationResponse 200 ''Video generated (demo mode)'' generation, w))
                      else
                        (GenerationResponse 202 ''Video generation started'' generation,
                         w\<lparr> tasks := tasks w @ [Video \<lparr> vt_userID = userID, vt_user = user, vt_req = req,
                              vt_generation = generation, vt_model = model, vt_duration = duration,
                              vt_resolution = resolution, vt_creditCost = creditCost \<rparr>] \<rparr>)))))"


section \<open>Pipelines\<close>

text \<open>The block both pipelines run on a failure: the status and the message are set,
  the row is saved and the user is told.\<close>

definition generation_failed :: "Env \<Rightarrow> nat \<Rightarrow> Generation \<Rightarrow> string \<Rightarrow> World \<Rightarrow> World" where
  "generation_failed env userID generation msg w =
    (let generation = generation\<lparr> g_Status := StatusFailed, g_ErrorMessage := msg \<rparr>;
         w = db_Save (e_dbSave env) generation w
     in notify userID (Message ''generation_failed'' generation [(''error'', msg)]) w)"

definition placeholder_colors :: "string list" where
  "placeholder_colors =
    [''6366f1'', ''8b5cf6'', ''ec4899'', ''f43f5e'', ''f97316'', ''eab308'', ''22c55e'', ''14b8a6'',
     ''06b6d4'', ''3b82f6'']"

text \<open>The last step of the music goroutine, from \<open>generation.Status = models.StatusCompleted\<close>
  on. The error of \<open>db.Save\<close> is dropped: the debit and the ledger entry follow whether
  the row was written or not.\<close>

definition music_completed :: "Env \<Rightarrow> nat \<Rightarrow> User \<Rightarrow> Generation \<Rightarrow> string \<Rightarrow> string \<Rightarrow> World \<Rightarrow> World" where
  "music_completed env userID user generation extraInfo audioURL w =
    (let generation = generation\<lparr> g_Status := StatusCompleted, g_Metadata := extraInfo \<rparr>;
         w = db_Save (e_dbSave env) generation w;
         w = db_Update_credits (e_dbUpdate env) user 1 w;
         w = db_Create_transaction (e_dbCreate env)
               \<lparr> ct_UserID = userID, ct_Amount = - 1, ct_Type = ''usage'',
                 ct_Description = ''Music generation'', ct_GenerationID = Some (g_ID generation),
                 ct_BalanceBefore = u_Credits user, ct_BalanceAfter = u_Credits user - 1 \<rparr> w
     in notify userID (Message ''generation_completed'' generation [(''audioUrl'', audioURL)]) w)"

text \<open>
  The goroutine of \<open>GenerateMusic\<close>. A panic of \<open>GenerateImage\<close> ends the process: the
  world stays as it is at that point.
\<close>

definition MusicPipeline :: "string \<Rightarrow> Env \<Rightarrow> MusicTask \<Rightarrow> World \<Rightarrow> World" where
  "MusicPipeline apiKey env t w =
    (let userID = mt_userID t; user = mt_user t; req = mt_req t; generation = mt_generation t;
         fullPrompt = (if mreq_Style req \<noteq> [] then mreq_Style req @ '', '' @ mreq_Prompt req
                       else mreq_Prompt req);
         w = notify userID (Message ''generation_progress'' generation
               [(''message'', ''Creating music...''), (''step'', ''1''), (''totalSteps'', ''2'')]) w;
         format = (if mreq_Format req = [] then ''mp3'' else mreq_Format req);
         bitrate = (if mreq_Bitrate req \<le> 0 then 256000 else mreq_Bitrate req);
         model = (if mreq_Model req = [] then ''music-2.0'' else mreq_Model req)
     in case MiniMaxService_GenerateMusic apiKey (e_music env) fullPrompt (mreq_Lyrics req) format model bitrate of
          Inl err \<Rightarrow> generation_failed env userID generation (Error err) w
        | Inr resp \<Rightarrow>
            (let audioData = mr_Audio resp;
                 fileName = show_nat (g_ID generation) @ ''.mp3''
             in if audioData \<noteq> [] \<and> \<not> HasPrefix audioData ''http'' \<and> \<not> hex_DecodeString_ok audioData then
                  generation_failed env userID generation ''Failed to decode audio data'' w
                else if audioData \<noteq> [] \<and> \<not> HasPrefix audioData ''http'' \<and> e_writeFile env \<noteq> None then
                  generation_failed env userID generation ''Failed to save audio file'' w
                else
                  (let audioURL = (if audioData = [] then []
                                   else if HasPrefix audioData ''http'' then audioData
                                   else ''/uploads/audio/'' @ fileName);
                       generation = generation\<lparr> g_OutputURL := audioURL \<rparr>;
                       w = notify userID (Message ''generation_progress'' generation
                             [(''message'', ''Creating album art...''), (''step'', ''2''), (''totalSteps'', ''2'')]) w;
                       artPrompt = ''Album cover art, '' @ mreq_Style req @ '' music, '' @ mreq_Title req
                          @ '', modern design, professional artwork, high quality, artistic, beautiful colors''
                   in case MiniMaxService_GenerateImage apiKey (e_image env) artPrompt of
                        None \<Rightarrow> w
                      | Some (Inl err) \<Rightarrow>
                          music_completed env userID user
                            (generation\<lparr> g_ThumbnailURL := ''https://placehold.co/400x400/''
                                @ placeholder_colors ! (g_ID generation mod length placeholder_colors)
                                @ ''/white?text='' @ [CHR 0xC3, CHR 0xA2, CHR 0xE2, CHR 0x84, CHR 0xA2, CHR 0xC2, CHR 0xAA] \<rparr>)
                            (mr_ExtraInfo resp) audioURL w
                      | Some (Inr albumArtURL) \<Rightarrow>
                          music_completed env userID user (generation\<lparr> g_ThumbnailURL := albumArtURL \<rparr>)
                            (mr_ExtraInfo resp) audioURL w)))"

text \<open>The narration step of the video goroutine: the generation and the video URL it
  leaves, and the world after its notifications.\<close>

definition video_narration ::
  "string \<Rightarrow> Env \<Rightarrow> VideoTask \<Rightarrow> Generation \<Rightarrow> string \<Rightarrow> World \<Rightarrow> Generation \<times> string \<times> World" where
  "video_narration apiKey env t generation videoURL w =
    (let userID = vt_userID t; req = vt_req t;
         w = notify userID (Message ''generation_progress'' generation
               [(''message'', ''Generating voiceover...''), (''step'', ''2''), (''totalSteps'', ''3'')]) w;
         optimalSpeed = fst (CalculateOptimalSpeed (vreq_Narration req) (vt_duration t));
         optimalSpeed = (if optimalSpeed < 1 then 1 else optimalSpeed)
     in case GenerateTTSWithSpeed apiKey (e_tts env) (vreq_Narration req) (vreq_VoiceID req) optimalSpeed of
          Inl err \<Rightarrow> (generation\<lparr> g_ErrorMessage := ''TTS failed: '' @ Error err \<rparr>, videoURL, w)
        | Inr ttsResp \<Rightarrow>
            (let w = notify userID (Message ''generation_progress'' generation
                       [(''message'', ''Combining video with voiceover...''), (''step'', ''3''),
                        (''totalSteps'', ''3'')]) w;
                 outputFileName = show_nat (g_ID generation) @ ''_with_audio.mp4''
             in case e_combine env of
                  Some err \<Rightarrow> (generation\<lparr> g_ErrorMessage := ''Combine failed: '' @ Error err \<rparr>, videoURL, w)
                | None \<Rightarrow> (generation, ''/uploads/video/'' @ outputFileName, w)))"

text \<open>The last step of the video goroutine, from \<open>generation.Status = models.StatusCompleted\<close>
  on, with the error of \<open>db.Save\<close> dropped in the same way.\<close>

definition video_completed :: "Env \<Rightarrow> nat \<Rightarrow> User \<Rightarrow> int \<Rightarrow> Generation \<Rightarrow> string \<Rightarrow> World \<Rightarrow> World" where
  "video_completed env userID user creditCost generation videoURL w =
    (let generation = generation\<lparr> g_Status := StatusCompleted, g_OutputURL := videoURL \<rparr>;
         w = db_Save (e_dbSave env) generation w;
         w = db_Update_credits (e_dbUpdate env) user creditCost w;
         w = db_Create_transaction (e_dbCreate env)
               \<lparr> ct_UserID = userID, ct_Amount = - creditCost, ct_Type = ''usage'',
                 ct_Description = ''Video generation'', ct_GenerationID = Some (g_ID generation),
                 ct_BalanceBefore = u_Credits user, ct_BalanceAfter = u_Credits user - creditCost \<rparr> w
     in notify userID (Message ''generation_completed'' generation [(''videoUrl'', videoURL)]) w)"

text \<open>
  The goroutine of \<open>GenerateVideo\<close>. When the poll loop does not return, the goroutine
  stays in it: the world keeps the state reached before polling.
\<close>

definition VideoPipeline :: "string \<Rightarrow> Env \<Rightarrow> VideoTask \<Rightarrow> World \<Rightarrow> World" where
  "VideoPipeline apiKey env t w =
    (let userID = vt_userID t; user = vt_user t; req = vt_req t; generation = vt_generation t;
         model = vt_model t; duration = vt_duration t; resolution = vt_resolution t;
         creditCost = vt_creditCost t;
         totalSteps = (if vreq_Narration req \<noteq> [] then ''3'' else ''2'');
         w = notify userID (Message ''generation_progress'' generation
               [(''message'', ''Generating video...''), (''step'', ''1''), (''totalSteps'', totalSteps)]) w
     in case MiniMaxService_GenerateVideo apiKey (e_video env) (vreq_Prompt req) duration resolution model of
          Inl err \<Rightarrow> generation_failed env userID generation (Error err) w
        | Inr resp \<Rightarrow>
            (let generation = generation\<lparr> g_MiniMaxJobID := vr_TaskID resp \<rparr>;
                 w = db_Save (e_dbSaveJobID env) generation w;
                 timeout = pollTimeout model
             in case WaitForCompletion apiKey (e_now env) timeout (e_ticks env) of
                  None \<Rightarrow> w
                | Some (Inl err) \<Rightarrow> generation_failed env userID generation (Error err) w
                | Some (Inr status) \<Rightarrow>
                    (let videoURL = ts_DownloadURL status
                     in if vreq_Narration req \<noteq> [] then
                          (case video_narration apiKey env t generation videoURL w of
                             (generation, videoURL, w) \<Rightarrow>
                               video_completed env userID user creditCost generation videoURL w)
                        else video_completed env userID user creditCost generation videoURL w)))"


section \<open>Runs of the system\<close>

text \<open>
  The process as a sequence of steps: a request reaches a handler, a goroutine that was
  started runs its pipeline against what the provider does, a client connects or
  disconnects. The goroutines of two jobs run in any order after their submissions; the
  steps of one pipeline are taken together.
\<close>

datatype event =
    SubmitMusic bool nat GenerateMusicRequest
  | SubmitVideo bool nat GenerateVideoRequest
  | Run nat Env
  | Connect conn nat
  | Disconnect conn

definition task_id :: "task \<Rightarrow> nat" where
  "task_id t = (case t of Music mt \<Rightarrow> g_ID (mt_generation mt) | Video vt \<Rightarrow> g_ID (vt_generation vt))"

definition run_task :: "string \<Rightarrow> Env \<Rightarrow> task \<Rightarrow> World \<Rightarrow> World" where
  "run_task apiKey env t w =
    (case t of Music mt \<Rightarrow> MusicPipeline apiKey env mt w | Video vt \<Rightarrow> VideoPipeline apiKey env vt w)"

fun step :: "string \<Rightarrow> event \<Rightarrow> World \<Rightarrow> World" where
  "step apiKey (SubmitMusic createOK userID req) w = snd (GenerateMusic apiKey createOK userID req w)"
| "step apiKey (SubmitVideo createOK userID req) w = snd (GenerateVideo apiKey createOK userID req w)"
| "step apiKey (Run gid env) w =
    (case find (\<lambda>t. task_id t = gid) (tasks w) of
       None \<Rightarrow> w
     | Some t \<Rightarrow> run_task apiKey env t (w\<lparr> tasks := filter (\<lambda>t. task_id t \<noteq> gid) (tasks w) \<rparr>))"
| "step apiKey (Connect c userID) w = w\<lparr> hub := Register (hub w) c userID \<rparr>"
| "step apiKey (Disconnect c) w = w\<lparr> hub := Unregister (hub w) c \<rparr>"

fun run :: "string \<Rightarrow> event list \<Rightarrow> World \<Rightarrow> World" where
  "run apiKey [] w = w"
| "run apiKey (e # es) w = run apiKey es (step apiKey e w)"

text \<open>A fresh database holding the given users, no client connected.\<close>

definition initial_world :: "(nat \<Rightarrow> User option) \<Rightarrow> World" where
  "initial_world us =
    \<lparr> users = us, generations = [], next_generation_id = 1, credit_transactions = [],
      hub = \<lparr> clients = [] \<rparr>,
      net = \<lparr> conn_up = (\<lambda>c. True), received = (\<lambda>c. []), write_calls = [] \<rparr>,
      tasks = [] \<rparr>"


section \<open>Example inputs\<close>

definition tick_of :: "nat \<Rightarrow> string \<Rightarrow> string \<Rightarrow> tick" where
  "tick_of now label fileID =
    \<lparr> tk_now = now,
      tk_status = Inr \<lparr> ts_StatusCode = 0, ts_StatusMsg = [], ts_Status = label,
                        ts_FileID = fileID, ts_DownloadURL = [] \<rparr>,
      tk_file = Inr \<lparr> fr_StatusCode = 0, fr_StatusMsg = [], fr_DownloadURL = ''https://cdn/video.mp4'' \<rparr> \<rparr>"

text \<open>A database with the single user 1, who holds the given credits.\<close>

definition world_of_credits :: "int \<Rightarrow> World" where
  "world_of_credits n = initial_world [1 \<mapsto> \<lparr> u_ID = 1, u_Credits = n \<rparr>]"

definition music_request :: GenerateMusicRequest where
  "music_request =
    \<lparr> mreq_Model = [], mreq_Format = [], mreq_Bitrate = 0, mreq_Title = ''Calm'',
      mreq_Prompt = ''a calm piano piece'', mreq_Lyrics = ''la la la la la'', mreq_Style = ''piano'' \<rparr>"

definition video_request :: "string \<Rightarrow> GenerateVideoRequest" where
  "video_request narration =
    \<lparr> vreq_Title = ''Roof'', vreq_Prompt = ''a cat on a roof'', vreq_Duration = 0, vreq_Resolution = [],
      vreq_Model = [], vreq_Narration = narration, vreq_VoiceID = [] \<rparr>"

text \<open>A provider that succeeds at every call: music and image come back as URLs, the
  video task succeeds at the first tick, speech and muxing succeed; the database accepts
  every write.\<close>

definition provider_succeeds :: Env where
  "provider_succeeds =
    \<lparr> e_music = (\<lambda>body. Inr \<lparr> mr_StatusCode = 0, mr_StatusMsg = [], mr_Audio = ''https://cdn/a.mp3'',
                                mr_ExtraInfo = [] \<rparr>),
      e_writeFile = None,
      e_image = (\<lambda>body. Inr (300, Inr \<lparr> ir_StatusCode = 0, ir_StatusMsg = [],
                                         ir_ImageURLs = [''https://cdn/a.png''] \<rparr>)),
      e_video = (\<lambda>body. Inr \<lparr> vr_StatusCode = 0, vr_StatusMsg = [], vr_TaskID = ''task-1'' \<rparr>),
      e_now = 0,
      e_ticks = [tick_of 5 ''Success'' ''file-1''],
      e_tts = (\<lambda>body. Inr \<lparr> ttsr_StatusCode = 0, ttsr_StatusMsg = [], ttsr_Audio = ''00ff'' \<rparr>),
      e_combine = None,
      e_dbSaveJobID = None, e_dbSave = None, e_dbUpdate = None, e_dbCreate = None \<rparr>"



section \<open>The ledger invariant\<close>

text \<open>
  The database accepts the two writes of a pipeline's run that the ledger invariant
  rests on, the save of the final status and the insert of the ledger entry (the save
  of the provider's task id and the update of the credits may fail); a step of the
  system in which it does.
\<close>

definition db_accepts :: "Env \<Rightarrow> bool" where
  "db_accepts env = (e_dbSave env = None \<and> e_dbCreate env = None)"

fun writes_accepted :: "event \<Rightarrow> bool" where
  "writes_accepted (Run gid env) = db_accepts env"
| "writes_accepted (SubmitMusic createOK userID req) = True"
| "writes_accepted (SubmitVideo createOK userID req) = True"
| "writes_accepted (Connect c userID) = True"
| "writes_accepted (Disconnect c) = True"

text \<open>The generation a goroutine holds is Processing, and the cost the goroutine will
  debit is the cost recorded on it.\<close>

definition task_cost_ok :: "task \<Rightarrow> bool" where
  "task_cost_ok t =
    (case t of
       Music mt \<Rightarrow> g_Status (mt_generation mt) = StatusProcessing \<and> g_CreditsCost (mt_generation mt) = 1
     | Video vt \<Rightarrow> g_Status (vt_generation vt) = StatusProcessing
          \<and> g_CreditsCost (vt_generation vt) = vt_creditCost vt)"

text \<open>The ledger has an entry that refers to the job; it has one that refers to the job
  with amount minus the job's credit cost.\<close>

definition has_entry :: "World \<Rightarrow> nat \<Rightarrow> bool" where
  "has_entry w gid = list_ex (\<lambda>ct. ct_GenerationID ct = Some gid) (credit_transactions w)"

definition debited :: "World \<Rightarrow> Generation \<Rightarrow> bool" where
  "debited w g =
    list_ex (\<lambda>ct. ct_GenerationID ct = Some (g_ID g) \<and> ct_Amount ct = - g_CreditsCost g)
      (credit_transactions w)"

text \<open>
  The invariant of a configured system: keys are unique and below the next key; ledger
  entries refer to keys that were given out; every goroutine not yet run belongs to a
  row that is still Processing; a Completed row has its debit entry and every other row
  has no entry at all.
\<close>

definition ledger_ok :: "World \<Rightarrow> bool" where
  "ledger_ok w =
    (distinct (map g_ID (generations w))
     \<and> list_all (\<lambda>g. g_ID g < next_generation_id w) (generations w)
     \<and> list_all (\<lambda>ct. case ct_GenerationID ct of None \<Rightarrow> True | Some gid \<Rightarrow> gid < next_generation_id w)
          (credit_transactions w)
     \<and> distinct (map task_id (tasks w))
     \<and> list_all (\<lambda>t. task_cost_ok t
            \<and> list_ex (\<lambda>g. g_ID g = task_id t \<and> g_Status g = StatusProcessing) (generations w)) (tasks w)
     \<and> list_all (\<lambda>g. if g_Status g = StatusCompleted then debited w g else \<not> has_entry w (g_ID g))
          (generations w))"




section \<open>Properties of the leaf components\<close>

text \<open>
  C10. For every text-to-speech request the speed in the body sent to the provider lies
  in [0.5, 2.0]: a requested speed below 0.5 is sent as 0.5 and one above 2.0 as 2.0
  (one inside the interval is sent as it is), and an empty voice identifier is sent as
  "male-qn-qingse"; a configured service passes exactly this body to the round trip.
\<close>

theorem C10_tts_speed_and_voice_clamped:
  "1 / 2 \<le> Speed (tts_VoiceSetting (TTSRequest_body text voiceID speed))
   \<and> Speed (tts_VoiceSetting (TTSRequest_body text voiceID speed)) \<le> 2
   \<and> Speed (tts_VoiceSetting (TTSRequest_body text voiceID speed))
       = (if speed < 1 / 2 then 1 / 2 else if speed > 2 then 2 else speed)
   \<and> VoiceID (tts_VoiceSetting (TTSRequest_body text voiceID speed))
       = (if voiceID = [] then ''male-qn-qingse'' else voiceID)
   \<and> tts_Text (TTSRequest_body text voiceID speed) = text
   \<and> GenerateTTSWithSpeed (c # apiKey) http text voiceID speed
       = (case http (TTSRequest_body text voiceID speed) of
            Inl err \<Rightarrow> Inl err
          | Inr result \<Rightarrow>
              if ttsr_StatusCode result \<noteq> 0 then Inl (ErrMiniMaxRequestFailed (ttsr_StatusMsg result))
              else Inr result)"
  by (simp add: TTSRequest_body_def GenerateTTSWithSpeed_def IsConfigured_def Let_def)

text \<open>
  C4. For every video generation call the body sent has its duration capped at 6, or at
  10 when the model is of the Hailuo-02 family and the requested resolution is not
  "1080P"; a non-positive duration is sent as 6; whenever the duration sent exceeds 6 the
  resolution sent is "768P" whatever was requested; for a Hailuo-02 model an unset
  resolution is sent as "768P" and, with a duration of at most 6, a set one is kept.
  Model "hailuo-02" with duration 9 and resolution "1080P" gives duration 6 and
  resolution "1080P". A configured service passes exactly this body to the round trip.
\<close>

theorem C4_video_request_clamps:
  "vq_Duration (VideoGenerationRequest_body prompt duration resolution model)
      = (if duration \<le> 0 then 6
         else min duration
           (if isHailuo02 (if model = [] then ''video-01'' else model) \<and> resolution \<noteq> ''1080P''
            then 10 else 6))
   \<and> vq_Duration (VideoGenerationRequest_body prompt duration resolution model)
      \<le> (if isHailuo02 model \<and> resolution \<noteq> ''1080P'' then 10 else 6)
   \<and> (duration \<le> 0 \<longrightarrow> vq_Duration (VideoGenerationRequest_body prompt duration resolution model) = 6)
   \<and> (vq_Duration (VideoGenerationRequest_body prompt duration resolution model) > 6
        \<longrightarrow> vq_Resolution (VideoGenerationRequest_body prompt duration resolution model) = ''768P'')
   \<and> (isHailuo02 model \<and> resolution = []
        \<longrightarrow> vq_Resolution (VideoGenerationRequest_body prompt duration resolution model) = ''768P'')
   \<and> (isHailuo02 model \<and> resolution \<noteq> []
        \<and> vq_Duration (VideoGenerationRequest_body prompt duration resolution model) \<le> 6
        \<longrightarrow> vq_Resolution (VideoGenerationRequest_body prompt duration resolution model) = resolution)
   \<and> VideoGenerationRequest_body prompt 9 ''1080P'' ''hailuo-02''
      = \<lparr> vq_Model = ''hailuo-02'', vq_Prompt = prompt, vq_Duration = 6, vq_Resolution = ''1080P'' \<rparr>
   \<and> MiniMaxService_GenerateVideo (c # apiKey) http prompt duration resolution model
      = (case http (VideoGenerationRequest_body prompt duration resolution model) of
           Inl err \<Rightarrow> Inl err
         | Inr result \<Rightarrow>
             if vr_StatusCode result \<noteq> 0 then Inl (ErrMiniMaxRequestFailed (vr_StatusMsg result))
             else Inr result)"
  by (simp add: VideoGenerationRequest_body_def MiniMaxService_GenerateVideo_def IsConfigured_def
      isHailuo02_def Let_def)

theorem C4_video_request_clamps_witness:
  "(0::int) \<le> 0
   \<and> vq_Duration (VideoGenerationRequest_body ''a cat on a roof'' 0 ''1080P'' ''video-01'') = 6
   \<and> vq_Duration (VideoGenerationRequest_body ''a cat on a roof'' 8 ''1080P'' ''MiniMax-Hailuo-02'') = 6
   \<and> vq_Duration (VideoGenerationRequest_body ''a cat on a roof'' 8 ''512P'' ''MiniMax-Hailuo-02'') > 6
   \<and> vq_Resolution (VideoGenerationRequest_body ''a cat on a roof'' 8 ''512P'' ''MiniMax-Hailuo-02'') = ''768P''
   \<and> isHailuo02 ''hailuo-02''
   \<and> vq_Resolution (VideoGenerationRequest_body ''a cat on a roof'' 6 [] ''hailuo-02'') = ''768P''
   \<and> vq_Resolution (VideoGenerationRequest_body ''a cat on a roof'' 5 ''1080P'' ''hailuo-02'') = ''1080P''"
  using C4_video_request_clamps [of "''a cat on a roof''" 0 "''1080P''" "''video-01''"]
    C4_video_request_clamps [of "''a cat on a roof''" 8 "''1080P''" "''MiniMax-Hailuo-02''"]
    C4_video_request_clamps [of "''a cat on a roof''" 8 "''512P''" "''MiniMax-Hailuo-02''"]
    C4_video_request_clamps [of "''a cat on a roof''" 6 "[]" "''hailuo-02''"]
    C4_video_request_clamps [of "''a cat on a roof''" 5 "''1080P''" "''hailuo-02''"]
  by (simp add: isHailuo02_def)

text \<open>
  C5. The handler passes 600 seconds to the poll loop for model "MiniMax-Hailuo-02" and
  300 seconds for every other model. Model "hailuo-02" gets 300 seconds, although the
  service counts it in the Hailuo-02 family and lets it run for 10 seconds of video.
\<close>

theorem C5_poll_timeout_of_hailuo_02:
  "pollTimeout ''MiniMax-Hailuo-02'' = 600
   \<and> pollTimeout ''video-01'' = 300
   \<and> pollTimeout ''hailuo-02'' = 300
   \<and> isHailuo02 ''hailuo-02''
   \<and> vq_Duration (VideoGenerationRequest_body prompt 10 ''768P'' ''hailuo-02'') = 10
   \<and> pollTimeout model = (if model = ''MiniMax-Hailuo-02'' then 600 else 300)"
  by (simp add: pollTimeout_def isHailuo02_def VideoGenerationRequest_body_def Let_def)

text \<open>
  C3, as stated: the calculator agrees with the specification's wording, whose last case
  floors the required speed to one decimal place. It does not: for the three-word text
  and duration -5 the required speed is about -0.24, the code returns -0.2 (truncation
  toward zero) and flooring gives -0.3.
\<close>

theorem C3_floor_counterexample:
  "CalculateOptimalSpeed ''one two three'' (- 5) = (f64 (- (1 / 5)), None)
   \<and> spec_EstimateSpeed ''one two three'' (- 5) = (f64 (- (3 / 10)), None)
   \<and> CalculateOptimalSpeed ''one two three'' (- 5) \<noteq> spec_EstimateSpeed ''one two three'' (- 5)"
proof -
  have c: "CalculateOptimalSpeed ''one two three'' (- 5) = (f64 (- (1 / 5)), None)" by code_simp
  have s: "spec_EstimateSpeed ''one two three'' (- 5) = (f64 (- (3 / 10)), None)" by code_simp
  have n: "f64 (- (1 / 5)) \<noteq> f64 (- (3 / 10))" by code_simp
  show ?thesis using c s n by simp
qed

text \<open>White space beyond ASCII separates words as well: a no-break space (U+00A0) and an
  ideographic space (U+3000).\<close>

lemma Fields_unicode_space_example:
  "Fields (''hello'' @ [CHR 0xC2, CHR 0xA0] @ ''big'' @ [CHR 0xE3, CHR 0x80, CHR 0x80] @ '' world'')
     = [''hello'', ''big'', ''world'']"
  by code_simp

lemma go_int_nonneg: "0 \<le> x \<Longrightarrow> go_int x = \<lfloor>x\<rfloor>"
  by (simp add: go_int_def)

lemma go_int_nonpos: "x \<le> 0 \<Longrightarrow> go_int x = \<lceil>x\<rceil>"
  by (cases "x = 0") (simp_all add: go_int_def)

text \<open>Rounding keeps the sign: the rounded significand of a number other than zero has
  at least 53 bits.\<close>

lemma round_half_even_cases:
  "round_half_even x = \<lfloor>x\<rfloor> \<or> round_half_even x = \<lfloor>x\<rfloor> + 1"
  by (simp add: round_half_even_def Let_def)

lemma round_half_even_nonneg: "0 \<le> x \<Longrightarrow> 0 \<le> round_half_even x"
  using round_half_even_cases [of x] by (auto simp: zero_le_floor)

lemma round_half_even_nonpos: "x \<le> 0 \<Longrightarrow> round_half_even x \<le> 0"
proof -
  assume x: "x \<le> 0"
  show ?thesis
  proof (cases "x = of_int \<lfloor>x\<rfloor>")
    case True
    then have "round_half_even x = \<lfloor>x\<rfloor>" by (simp add: round_half_even_def Let_def)
    with x show ?thesis by (simp add: floor_le_zero le_floor_iff)
  next
    case False
    then have "of_int \<lfloor>x\<rfloor> < x" using of_int_floor_le [of x] by linarith
    with x have "\<lfloor>x\<rfloor> < 0" by (metis less_le_trans of_int_less_0_iff)
    then have "\<lfloor>x\<rfloor> \<le> 0" and "\<lfloor>x\<rfloor> + 1 \<le> 0"
      by (rule less_imp_le, rule zless_imp_add1_zle)
    with round_half_even_cases [of x] show ?thesis by metis
  qed
qed

lemma round_half_even_le: "x \<le> of_int n \<Longrightarrow> round_half_even x \<le> n"
proof -
  assume x: "x \<le> of_int n"
  show ?thesis
  proof (cases "x = of_int n")
    case True
    then show ?thesis by (simp add: round_half_even_def Let_def)
  next
    case False
    with x have "x < of_int n" by simp
    then have "\<lfloor>x\<rfloor> < n" by (simp add: floor_less_iff)
    with round_half_even_cases [of x] show ?thesis by auto
  qed
qed

lemma round_half_even_ge: "of_int n \<le> x \<Longrightarrow> n \<le> round_half_even x"
proof -
  assume "of_int n \<le> x"
  then have "n \<le> \<lfloor>x\<rfloor>" by (simp add: le_floor_iff)
  with round_half_even_cases [of x] show ?thesis by auto
qed

lemma ilog2_le:
  assumes x: "0 < x"
  shows "2 powi (ilog2 x) \<le> x"
proof -
  obtain p q where pq: "quotient_of x = (p, q)" by (cases "quotient_of x")
  have q: "0 < q" using pq by (rule quotient_of_denom_pos)
  have xe: "x = of_int p / of_int q" using pq by (rule quotient_of_div)
  have p: "0 < p" using x q unfolding xe by (simp add: zero_less_divide_iff)
  define k where "k = bitlen p - bitlen q"
  have bp: "2 ^ nat (bitlen p - 1) \<le> p" using bitlen_bounds [OF p] by simp
  have bq: "q < 2 ^ nat (bitlen q)" using bitlen_bounds [OF q] by simp
  have bp1: "1 \<le> bitlen p" using p by (simp add: bitlen_def floorlog_def)
  have bq0: "0 \<le> bitlen q" by (rule bitlen_nonneg)
  have ke: "k - 1 = (bitlen p - 1) - bitlen q" by (simp add: k_def)
  have "(2::rat) powi (k - 1) = 2 powi (bitlen p - 1) / 2 powi (bitlen q)"
    unfolding ke by (rule power_int_diff) simp
  also have "\<dots> = 2 ^ nat (bitlen p - 1) / 2 ^ nat (bitlen q)"
    using bp1 bq0 by (simp add: power_int_def)
  also have "\<dots> \<le> of_int p / of_int q"
  proof (rule frac_le)
    show "(0::rat) \<le> of_int p" using p by simp
    show "(2::rat) ^ nat (bitlen p - 1) \<le> of_int p"
      using bp by (metis of_int_le_iff of_int_numeral of_int_power)
    show "(0::rat) < of_int q" using q by simp
    show "(of_int q :: rat) \<le> 2 ^ nat (bitlen q)"
      using bq by (metis less_imp_le of_int_le_iff of_int_numeral of_int_power)
  qed
  finally have low: "(2::rat) powi (k - 1) \<le> x" unfolding xe .
  show ?thesis
    using low by (simp add: ilog2_def Let_def pq k_def)
qed

lemma f64_nonneg: "0 \<le> x \<Longrightarrow> 0 \<le> f64 x"
  by (simp add: f64_def Let_def round_half_even_nonneg)

lemma f64_nonpos: "x \<le> 0 \<Longrightarrow> f64 x \<le> 0"
proof -
  assume x: "x \<le> 0"
  have "\<And>e. x / 2 powi e \<le> 0" using x by (simp add: divide_le_0_iff)
  then have "\<And>e. round_half_even (x / 2 powi e) \<le> 0" by (rule round_half_even_nonpos)
  then show ?thesis
    by (simp add: f64_def Let_def mult_le_0_iff)
qed

lemma f64_neg:
  assumes x: "x < 0"
  shows "f64 x < 0"
proof -
  define e where "e = ilog2 \<bar>x\<bar> - 52"
  have pos: "(0::rat) < 2 powi e" by simp
  have "2 powi (ilog2 \<bar>x\<bar>) \<le> \<bar>x\<bar>" using x by (intro ilog2_le) simp
  then have "(2::rat) powi (e + 52) \<le> - x" using x by (simp add: e_def)
  then have "(2::rat) powi e * 2 ^ 52 \<le> - x" by (simp add: power_int_add)
  then have "x / 2 powi e \<le> - (2 ^ 52)"
    using pos by (simp add: field_simps)
  then have "x / 2 powi e \<le> of_int (- (2 ^ 52))" by simp
  then have "round_half_even (x / 2 powi e) \<le> - (2 ^ 52)" by (rule round_half_even_le)
  moreover have "- (2 ^ 52) < (0::int)" by simp
  ultimately have "round_half_even (x / 2 powi e) < 0" by (rule le_less_trans)
  then have "of_int (round_half_even (x / 2 powi e)) * 2 powi e < (0::rat)"
    using pos by (simp add: mult_less_0_iff)
  then show ?thesis using x by (simp add: f64_def Let_def e_def)
qed

lemma f64_pos:
  assumes x: "0 < x"
  shows "0 < f64 x"
proof -
  define e where "e = ilog2 \<bar>x\<bar> - 52"
  have pos: "(0::rat) < 2 powi e" by simp
  have "2 powi (ilog2 \<bar>x\<bar>) \<le> \<bar>x\<bar>" using x by (intro ilog2_le) simp
  then have "(2::rat) powi (e + 52) \<le> x" using x by (simp add: e_def)
  then have "(2::rat) powi e * 2 ^ 52 \<le> x" by (simp add: power_int_add)
  then have "2 ^ 52 \<le> x / 2 powi e"
    using pos by (simp add: field_simps)
  then have "of_int (2 ^ 52) \<le> x / 2 powi e" by simp
  then have "2 ^ 52 \<le> round_half_even (x / 2 powi e)" by (rule round_half_even_ge)
  moreover have "(0::int) < 2 ^ 52" by simp
  ultimately have "0 < round_half_even (x / 2 powi e)" by (rule less_le_trans [rotated])
  then have "(0::rat) < of_int (round_half_even (x / 2 powi e)) * 2 powi e"
    using pos by (simp add: zero_less_mult_iff)
  then show ?thesis using x by (simp add: f64_def Let_def e_def)
qed

lemma EstimateTTSDuration_nonneg: "0 \<le> EstimateTTSDuration text"
  by (simp add: EstimateTTSDuration_def fdiv_def float64_def f64_nonneg)

text \<open>
  C3, amended. For every text and every duration d \<ge> 0 the calculator computes, in
  float64 arithmetic, what the specification words: speed 1.0 when the estimate is
  within the target, else NarrationTooLong when the required speed exceeds 1.5 (or the
  target is 0), 1.3 when it lies in (1.3, 1.5], and otherwise the required speed floored
  to one decimal place. For d < 0 the target is d itself, the required speed is not
  positive, and the result is the required speed truncated toward zero, that is rounded
  up, to one decimal place.
\<close>

theorem C3_speed_calculator:
  "(0 \<le> d \<longrightarrow> CalculateOptimalSpeed text d = spec_EstimateSpeed text d)
   \<and> (d < 0 \<longrightarrow> CalculateOptimalSpeed text d
          = (fdiv (float64 \<lceil>fmul (fdiv (EstimateTTSDuration text) (float64 d)) 10\<rceil>) 10, None))"
proof (intro conjI impI)
  assume d: "0 \<le> d"
  define e where "e = fdiv (float64 (int (length (Fields text)))) (5 / 2)"
  define t where "t = (if fsub (float64 d) (1 / 2) \<le> 0 then float64 d else fsub (float64 d) (1 / 2))"
  have e0: "0 \<le> e" unfolding e_def by (simp add: fdiv_def float64_def f64_nonneg)
  have t0: "0 \<le> t" using d by (simp add: t_def float64_def f64_nonneg)
  have "0 \<le> fdiv e t" unfolding fdiv_def using e0 t0 by (intro f64_nonneg) simp
  then have pos: "0 \<le> fmul (fdiv e t) 10" unfolding fmul_def by (intro f64_nonneg) simp
  have c: "f64 (13 / 10) \<le> 3 / 2" by code_simp
  have lt: "\<And>x::rat. 3 / 2 < x \<Longrightarrow> f64 (13 / 10) < x" using c by (rule le_less_trans)
  show "CalculateOptimalSpeed text d = spec_EstimateSpeed text d"
    using go_int_nonneg [OF pos] lt [of "fdiv e t"]
    unfolding CalculateOptimalSpeed_def spec_EstimateSpeed_def EstimateTTSDuration_def Let_def
      e_def [symmetric] t_def [symmetric]
    by auto
next
  assume d: "d < 0"
  define e where "e = EstimateTTSDuration text"
  have e0: "0 \<le> e" unfolding e_def by (rule EstimateTTSDuration_nonneg)
  have dr: "float64 d < 0" unfolding float64_def using d by (intro f64_neg) simp
  have t0: "fsub (float64 d) (1 / 2) \<le> 0"
    unfolding fsub_def using dr by (intro f64_nonpos) simp
  have q: "fdiv e (float64 d) \<le> 0"
    unfolding fdiv_def using e0 dr by (intro f64_nonpos) (simp add: divide_nonneg_neg)
  have q10: "fmul (fdiv e (float64 d)) 10 \<le> 0"
    unfolding fmul_def using q by (intro f64_nonpos mult_nonpos_nonneg) simp_all
  have nle: "\<not> e \<le> float64 d" using e0 dr by linarith
  have p13: "0 < f64 (13 / 10)" by (rule f64_pos) simp
  have n13: "\<not> fdiv e (float64 d) > f64 (13 / 10)" using q p13 by linarith
  have nz: "float64 d \<noteq> 0" using dr by simp
  show "CalculateOptimalSpeed text d
      = (fdiv (float64 \<lceil>fmul (fdiv (EstimateTTSDuration text) (float64 d)) 10\<rceil>) 10, None)"
    unfolding CalculateOptimalSpeed_def Let_def e_def [symmetric]
    by (simp only: t0 if_True nle if_False nz n13 go_int_nonpos [OF q10])
qed

theorem C3_speed_calculator_witness:
  "(0::int) \<le> 6 \<and> (- 3 :: int) < 0
   \<and> CalculateOptimalSpeed (concat (replicate 17 ''word '')) 6 = spec_EstimateSpeed (concat (replicate 17 ''word '')) 6
   \<and> spec_EstimateSpeed (concat (replicate 17 ''word '')) 6 = (f64 (6 / 5), None)
   \<and> CalculateOptimalSpeed ''one two three'' (- 3)
        = (fdiv (float64 \<lceil>fmul (fdiv (EstimateTTSDuration ''one two three'') (float64 (- 3))) 10\<rceil>) 10, None)
   \<and> fmul (fdiv (EstimateTTSDuration ''one two three'') (float64 (- 3))) 10
        = - (9007199254740991 / 2251799813685248)
   \<and> CalculateOptimalSpeed ''one two three'' (- 3) = (f64 (- (3 / 10)), None)"
proof -
  have s: "spec_EstimateSpeed (concat (replicate 17 ''word '')) 6 = (f64 (6 / 5), None)"
    by code_simp
  have r: "fmul (fdiv (EstimateTTSDuration ''one two three'') (float64 (- 3))) 10
        = - (9007199254740991 / 2251799813685248)"
    by code_simp
  have c: "CalculateOptimalSpeed ''one two three'' (- 3) = (f64 (- (3 / 10)), None)"
    by code_simp
  show ?thesis
    using C3_speed_calculator [of 6 "concat (replicate 17 ''word '')"]
      C3_speed_calculator [of "- 3" "''one two three''"] s r c
    by simp
qed


section \<open>Properties of the poll loop\<close>

lemma WaitForCompletion_loop_continues:
  "list_all (tick_continues apiKey deadline) pre \<Longrightarrow>
   WaitForCompletion_loop apiKey deadline (pre @ rest) = WaitForCompletion_loop apiKey deadline rest"
proof (induction pre)
  case Nil
  then show ?case by simp
next
  case (Cons t pre)
  then have c: "tick_continues apiKey deadline t" and r: "list_all (tick_continues apiKey deadline) pre"
    by simp_all
  from c have "WaitForCompletion_loop apiKey deadline (t # (pre @ rest))
      = WaitForCompletion_loop apiKey deadline (pre @ rest)"
    by (auto simp: tick_continues_def tick_label_def terminal_label_def split: sum.splits)
  with Cons.IH [OF r] show ?case by simp
qed

lemma WaitForCompletion_loop_returns:
  "\<exists>t \<in> set ticks. tk_now t > deadline \<Longrightarrow> WaitForCompletion_loop apiKey deadline ticks \<noteq> None"
  by (induction ticks) (auto split: sum.splits)

text \<open>
  C8, as stated: a status query that returns the label "Success" ends the loop
  successfully. It does not when the result carries a file identifier and the extra
  lookup fails: the loop then ends with the lookup's error.
\<close>

theorem C8_lookup_failure_counterexample:
  "WaitForCompletion ''key'' 0 300
     [\<lparr> tk_now = 5,
        tk_status = Inr \<lparr> ts_StatusCode = 0, ts_StatusMsg = [], ts_Status = ''Success'',
                          ts_FileID = ''file-1'', ts_DownloadURL = [] \<rparr>,
        tk_file = Inl (ErrOther ''connection reset'') \<rparr>]
   = Some (Inl (ErrOther ''connection reset''))"
  by (simp add: WaitForCompletion_def GetTaskStatus_def GetFileDownloadURL_def IsConfigured_def)

lemma WaitForCompletion_loop_cases:
  assumes pre: "list_all (tick_continues apiKey deadline) pre"
  shows "WaitForCompletion_loop apiKey deadline pre = None"
    and "WaitForCompletion_loop apiKey deadline (pre @ rest) = WaitForCompletion_loop apiKey deadline rest"
    and "tk_now t > deadline \<longrightarrow>
           WaitForCompletion_loop apiKey deadline (pre @ t # rest) = Some (Inl ErrTimeout)"
    and "\<not> tk_now t > deadline \<and> GetTaskStatus apiKey (tk_status t) = Inr status
           \<and> (ts_Status status = ''Success'' \<or> ts_Status status = ''Completed'') \<and> ts_FileID status = [] \<longrightarrow>
           WaitForCompletion_loop apiKey deadline (pre @ t # rest) = Some (Inr status)"
    and "\<not> tk_now t > deadline \<and> GetTaskStatus apiKey (tk_status t) = Inr status
           \<and> (ts_Status status = ''Success'' \<or> ts_Status status = ''Completed'') \<and> ts_FileID status \<noteq> []
           \<and> GetFileDownloadURL apiKey (tk_file t) = Inr url \<longrightarrow>
           WaitForCompletion_loop apiKey deadline (pre @ t # rest)
             = Some (Inr (status\<lparr> ts_DownloadURL := url \<rparr>))"
    and "\<not> tk_now t > deadline \<and> GetTaskStatus apiKey (tk_status t) = Inr status
           \<and> (ts_Status status = ''Success'' \<or> ts_Status status = ''Completed'') \<and> ts_FileID status \<noteq> []
           \<and> GetFileDownloadURL apiKey (tk_file t) = Inl err \<longrightarrow>
           WaitForCompletion_loop apiKey deadline (pre @ t # rest) = Some (Inl err)"
    and "\<not> tk_now t > deadline \<and> GetTaskStatus apiKey (tk_status t) = Inr status
           \<and> (ts_Status status = ''Failed'' \<or> ts_Status status = ''Error'') \<longrightarrow>
           WaitForCompletion_loop apiKey deadline (pre @ t # rest) = Some (Inl ErrMiniMaxJobFailed)"
    and "(\<exists>t \<in> set ticks. tk_now t > deadline) \<longrightarrow>
           (\<exists>r. WaitForCompletion_loop apiKey deadline ticks = Some r)"
proof -
  show "WaitForCompletion_loop apiKey deadline pre = None"
    using WaitForCompletion_loop_continues [OF pre, of "[]"] by simp
  show "WaitForCompletion_loop apiKey deadline (pre @ rest) = WaitForCompletion_loop apiKey deadline rest"
    by (rule WaitForCompletion_loop_continues [OF pre])
  show "tk_now t > deadline \<longrightarrow>
           WaitForCompletion_loop apiKey deadline (pre @ t # rest) = Some (Inl ErrTimeout)"
    by (simp add: WaitForCompletion_loop_continues [OF pre])
  show "\<not> tk_now t > deadline \<and> GetTaskStatus apiKey (tk_status t) = Inr status
           \<and> (ts_Status status = ''Success'' \<or> ts_Status status = ''Completed'') \<and> ts_FileID status = [] \<longrightarrow>
           WaitForCompletion_loop apiKey deadline (pre @ t # rest) = Some (Inr status)"
    by (auto simp: WaitForCompletion_loop_continues [OF pre])
  show "\<not> tk_now t > deadline \<and> GetTaskStatus apiKey (tk_status t) = Inr status
           \<and> (ts_Status status = ''Success'' \<or> ts_Status status = ''Completed'') \<and> ts_FileID status \<noteq> []
           \<and> GetFileDownloadURL apiKey (tk_file t) = Inr url \<longrightarrow>
           WaitForCompletion_loop apiKey deadline (pre @ t # rest)
             = Some (Inr (status\<lparr> ts_DownloadURL := url \<rparr>))"
    by (auto simp: WaitForCompletion_loop_continues [OF pre])
  show "\<not> tk_now t > deadline \<and> GetTaskStatus apiKey (tk_status t) = Inr status
           \<and> (ts_Status status = ''Success'' \<or> ts_Status status = ''Completed'') \<and> ts_FileID status \<noteq> []
           \<and> GetFileDownloadURL apiKey (tk_file t) = Inl err \<longrightarrow>
           WaitForCompletion_loop apiKey deadline (pre @ t # rest) = Some (Inl err)"
    by (auto simp: WaitForCompletion_loop_continues [OF pre])
  show "\<not> tk_now t > deadline \<and> GetTaskStatus apiKey (tk_status t) = Inr status
           \<and> (ts_Status status = ''Failed'' \<or> ts_Status status = ''Error'') \<longrightarrow>
           WaitForCompletion_loop apiKey deadline (pre @ t # rest) = Some (Inl ErrMiniMaxJobFailed)"
    by (auto simp: WaitForCompletion_loop_continues [OF pre])
  show "(\<exists>t \<in> set ticks. tk_now t > deadline) \<longrightarrow>
           (\<exists>r. WaitForCompletion_loop apiKey deadline ticks = Some r)"
    using WaitForCompletion_loop_returns [of ticks deadline apiKey] by auto
qed

text \<open>
  C8, amended. Let the loop first see any number of ticks within the deadline whose
  status query fails or returns a label other than "Success", "Completed", "Failed" and
  "Error": all of them are passed over, and the loop is still running when no further
  tick comes. If the next tick is past the deadline the loop returns the timeout error.
  If it is within the deadline and its query returns "Success" or "Completed", the loop
  returns that status when it carries no file identifier; when it carries one, the loop
  makes one lookup and returns the status with the download URL found, or, when the
  lookup fails, the lookup's error. If its query returns "Failed" or "Error" the loop
  returns the job-failed error. The loop always returns once a tick past the deadline
  comes.
\<close>

theorem C8_poll_loop:
  assumes pre: "list_all (tick_continues apiKey deadline) pre"
  shows "WaitForCompletion_loop apiKey deadline pre = None
    \<and> WaitForCompletion_loop apiKey deadline (pre @ rest) = WaitForCompletion_loop apiKey deadline rest
    \<and> (tk_now t > deadline \<longrightarrow>
           WaitForCompletion_loop apiKey deadline (pre @ t # rest) = Some (Inl ErrTimeout))
    \<and> (\<not> tk_now t > deadline \<and> GetTaskStatus apiKey (tk_status t) = Inr status
           \<and> (ts_Status status = ''Success'' \<or> ts_Status status = ''Completed'') \<and> ts_FileID status = [] \<longrightarrow>
           WaitForCompletion_loop apiKey deadline (pre @ t # rest) = Some (Inr status))
    \<and> (\<not> tk_now t > deadline \<and> GetTaskStatus apiKey (tk_status t) = Inr status
           \<and> (ts_Status status = ''Success'' \<or> ts_Status status = ''Completed'') \<and> ts_FileID status \<noteq> []
           \<and> GetFileDownloadURL apiKey (tk_file t) = Inr url \<longrightarrow>
           WaitForCompletion_loop apiKey deadline (pre @ t # rest)
             = Some (Inr (status\<lparr> ts_DownloadURL := url \<rparr>)))
    \<and> (\<not> tk_now t > deadline \<and> GetTaskStatus apiKey (tk_status t) = Inr status
           \<and> (ts_Status status = ''Success'' \<or> ts_Status status = ''Completed'') \<and> ts_FileID status \<noteq> []
           \<and> GetFileDownloadURL apiKey (tk_file t) = Inl err \<longrightarrow>
           WaitForCompletion_loop apiKey deadline (pre @ t # rest) = Some (Inl err))
    \<and> (\<not> tk_now t > deadline \<and> GetTaskStatus apiKey (tk_status t) = Inr status
           \<and> (ts_Status status = ''Failed'' \<or> ts_Status status = ''Error'') \<longrightarrow>
           WaitForCompletion_loop apiKey deadline (pre @ t # rest) = Some (Inl ErrMiniMaxJobFailed))
    \<and> ((\<exists>t \<in> set ticks. tk_now t > deadline) \<longrightarrow>
           (\<exists>r. WaitForCompletion_loop apiKey deadline ticks = Some r))"
  by (intro conjI) (rule WaitForCompletion_loop_cases [OF pre])+

theorem C8_poll_loop_witness:
  "list_all (tick_continues ''key'' 300)
      [(tick_of 5 [] [])\<lparr> tk_status := Inl (ErrOther ''connection reset'') \<rparr>, tick_of 10 ''Processing'' []]
   \<and> WaitForCompletion_loop ''key'' 300
      [(tick_of 5 [] [])\<lparr> tk_status := Inl (ErrOther ''connection reset'') \<rparr>, tick_of 10 ''Processing'' []]
      = None
   \<and> WaitForCompletion_loop ''key'' 300
      [(tick_of 5 [] [])\<lparr> tk_status := Inl (ErrOther ''connection reset'') \<rparr>, tick_of 10 ''Processing'' [],
       tick_of 305 ''Success'' []]
      = Some (Inl ErrTimeout)
   \<and> WaitForCompletion_loop ''key'' 300
      [(tick_of 5 [] [])\<lparr> tk_status := Inl (ErrOther ''connection reset'') \<rparr>, tick_of 10 ''Processing'' [],
       tick_of 15 ''Completed'' []]
      = Some (Inr \<lparr> ts_StatusCode = 0, ts_StatusMsg = [], ts_Status = ''Completed'',
                     ts_FileID = [], ts_DownloadURL = [] \<rparr>)
   \<and> WaitForCompletion_loop ''key'' 300
      [(tick_of 5 [] [])\<lparr> tk_status := Inl (ErrOther ''connection reset'') \<rparr>, tick_of 10 ''Processing'' [],
       tick_of 15 ''Success'' ''file-1'']
      = Some (Inr \<lparr> ts_StatusCode = 0, ts_StatusMsg = [], ts_Status = ''Success'',
                     ts_FileID = ''file-1'', ts_DownloadURL = ''https://cdn/video.mp4'' \<rparr>)
   \<and> WaitForCompletion_loop ''key'' 300
      [(tick_of 5 [] [])\<lparr> tk_status := Inl (ErrOther ''connection reset'') \<rparr>, tick_of 10 ''Processing'' [],
       (tick_of 15 ''Success'' ''file-1'')\<lparr> tk_file := Inl (ErrOther ''connection reset'') \<rparr>]
      = Some (Inl (ErrOther ''connection reset''))
   \<and> WaitForCompletion_loop ''key'' 300
      [(tick_of 5 [] [])\<lparr> tk_status := Inl (ErrOther ''connection reset'') \<rparr>, tick_of 10 ''Processing'' [],
       tick_of 15 ''Failed'' []]
      = Some (Inl ErrMiniMaxJobFailed)"
proof -
  let ?pre = "[(tick_of 5 [] [])\<lparr> tk_status := Inl (ErrOther ''connection reset'') \<rparr>, tick_of 10 ''Processing'' []]"
  have pre: "list_all (tick_continues ''key'' 300) ?pre"
    by (simp add: tick_continues_def tick_label_def terminal_label_def tick_of_def GetTaskStatus_def
        IsConfigured_def)
  note c = C8_poll_loop [OF pre]
  show ?thesis
    using pre
      c [of "[]" "tick_of 305 ''Success'' []"]
      c [of "[]" "tick_of 15 ''Completed'' []"
            "\<lparr> ts_StatusCode = 0, ts_StatusMsg = [], ts_Status = ''Completed'', ts_FileID = [], ts_DownloadURL = [] \<rparr>"]
      c [of "[]" "tick_of 15 ''Success'' ''file-1''"
            "\<lparr> ts_StatusCode = 0, ts_StatusMsg = [], ts_Status = ''Success'', ts_FileID = ''file-1'', ts_DownloadURL = [] \<rparr>"
            "''https://cdn/video.mp4''"]
      c [of "[]" "(tick_of 15 ''Success'' ''file-1'')\<lparr> tk_file := Inl (ErrOther ''connection reset'') \<rparr>"
            "\<lparr> ts_StatusCode = 0, ts_StatusMsg = [], ts_Status = ''Success'', ts_FileID = ''file-1'', ts_DownloadURL = [] \<rparr>"
            _ "ErrOther ''connection reset''"]
      c [of "[]" "tick_of 15 ''Failed'' []"
            "\<lparr> ts_StatusCode = 0, ts_StatusMsg = [], ts_Status = ''Failed'', ts_FileID = [], ts_DownloadURL = [] \<rparr>"]
    by (simp add: tick_of_def GetTaskStatus_def GetFileDownloadURL_def IsConfigured_def)
qed


section \<open>Properties of the notification hub\<close>

lemma SendToUser_range_conn_up:
  "conn_up (SendToUser_range cs userID message n) = conn_up n"
  by (induction cs arbitrary: n) (simp_all add: WriteJSON_def Let_def)

lemma SendToUser_range_write_calls:
  "write_calls (SendToUser_range cs userID message n)
     = write_calls n @ map (\<lambda>c. (c, message)) (map fst (filter (\<lambda>e. snd e = userID) cs))"
  by (induction cs arbitrary: n) (simp_all add: WriteJSON_def Let_def)

lemma SendToUser_range_received_other:
  "c \<notin> fst ` set cs \<Longrightarrow> received (SendToUser_range cs userID message n) c = received n c"
  by (induction cs arbitrary: n) (auto simp: WriteJSON_def Let_def)

lemma SendToUser_range_received:
  "distinct (map fst cs) \<Longrightarrow>
   received (SendToUser_range cs userID message n) c
     = (if c \<in> set (map fst (filter (\<lambda>e. snd e = userID) cs)) \<and> conn_up n c
        then received n c @ [message] else received n c)"
proof (induction cs arbitrary: n)
  case Nil
  then show ?case by simp
next
  case (Cons client cs)
  then have d: "distinct (map fst cs)" and f: "fst client \<notin> fst ` set cs" by auto
  show ?case
  proof (cases "snd client = userID")
    case False
    then show ?thesis using Cons.IH [OF d, of n] f by (auto simp: image_iff)
  next
    case True
    let ?n = "snd (WriteJSON (fst client) message n)"
    have up: "conn_up ?n = conn_up n" by (simp add: WriteJSON_def Let_def)
    have rec: "received ?n = (if conn_up n (fst client)
        then (received n)(fst client := received n (fst client) @ [message]) else received n)"
      by (simp add: WriteJSON_def Let_def)
    show ?thesis
    proof (cases "c = fst client")
      case True
      with f have "c \<notin> fst ` set cs" by simp
      then have "received (SendToUser_range cs userID message ?n) c = received ?n c"
        by (rule SendToUser_range_received_other)
      with \<open>snd client = userID\<close> \<open>c = fst client\<close> rec show ?thesis by simp
    next
      case False
      with Cons.IH [OF d, of ?n] \<open>snd client = userID\<close> up rec show ?thesis by auto
    qed
  qed
qed

lemma registry_ok_Register: "registry_ok h \<Longrightarrow> registry_ok (Register h c userID)"
  by (auto simp: registry_ok_def Register_def distinct_map_filter)

lemma registry_ok_Unregister: "registry_ok h \<Longrightarrow> registry_ok (Unregister h c)"
  by (simp add: registry_ok_def Unregister_def distinct_map_filter)

text \<open>
  C9. For every registry (with one entry for a connection, as a map has) and every user,
  \<open>SendToUser\<close> calls the write of every connection registered for that user, once each
  and of no other connection; every such connection whose write succeeds receives the
  message, whether or not the write on another connection fails; every other
  connection receives nothing. \<open>SendToUser\<close> has no error result: it returns normally
  in every case.
\<close>

theorem C9_broadcast_reaches_every_connection:
  assumes "registry_ok h"
  shows "write_calls (SendToUser h userID message n)
           = write_calls n @ map (\<lambda>c. (c, message)) (conns_of h userID)
       \<and> distinct (conns_of h userID)
       \<and> set (conns_of h userID) = {c. (c, userID) \<in> set (clients h)}
       \<and> (\<forall>c. received (SendToUser h userID message n) c
              = (if c \<in> set (conns_of h userID) \<and> conn_up n c
                 then received n c @ [message] else received n c))
       \<and> conn_up (SendToUser h userID message n) = conn_up n"
proof -
  have d: "distinct (map fst (clients h))" using assms by (simp add: registry_ok_def)
  have "distinct (conns_of h userID)"
    unfolding conns_of_def using d by (rule distinct_map_filter)
  moreover have "set (conns_of h userID) = {c. (c, userID) \<in> set (clients h)}"
    by (auto simp: conns_of_def image_iff)
  ultimately show ?thesis
    using SendToUser_range_received [OF d, of userID message n]
    by (simp add: SendToUser_def conns_of_def SendToUser_range_write_calls SendToUser_range_conn_up)
qed

text \<open>Three connections of user 7, the second of which fails on write, and one
  connection of user 8.\<close>

theorem C9_broadcast_reaches_every_connection_witness:
  "registry_ok (Register (Register (Register (Register \<lparr> clients = [] \<rparr> 1 7) 2 7) 3 7) 4 8)
   \<and> write_calls (SendToUser (Register (Register (Register (Register \<lparr> clients = [] \<rparr> 1 7) 2 7) 3 7) 4 8) 7 ''m''
        \<lparr> conn_up = (\<lambda>c. c \<noteq> 2), received = (\<lambda>c. []), write_calls = [] \<rparr>)
      = [(3, ''m''), (2, ''m''), (1, ''m'')]
   \<and> map (received (SendToUser (Register (Register (Register (Register \<lparr> clients = [] \<rparr> 1 7) 2 7) 3 7) 4 8) 7 ''m''
        \<lparr> conn_up = (\<lambda>c. c \<noteq> 2), received = (\<lambda>c. []), write_calls = [] \<rparr>)) [1, 2, 3, 4]
      = [[''m''], [], [''m''], []]"
proof -
  let ?h = "Register (Register (Register (Register \<lparr> clients = [] \<rparr> 1 7) 2 7) 3 7) 4 8"
  have ok: "registry_ok ?h"
    by (simp add: registry_ok_def Register_def)
  have cs: "conns_of ?h 7 = [3, 2, 1]"
    by (simp add: conns_of_def Register_def)
  show ?thesis
    using ok cs C9_broadcast_reaches_every_connection [OF ok, of 7 "''m''"
        "\<lparr> conn_up = (\<lambda>c. c \<noteq> 2), received = (\<lambda>c. []), write_calls = [] \<rparr>"]
    by simp
qed


section \<open>Properties of the submission handlers\<close>

lemma generations_save_rows_mem:
  "g_ID g \<in> set (map g_ID rows) \<Longrightarrow> g \<in> set (save_rows g rows)"
  by (auto simp: save_rows_def image_iff)

lemma music_generation_fields [simp]:
  "g_Type (music_generation userID req) = TypeMusic"
  "g_Status (music_generation userID req) = StatusProcessing"
  "g_CreditsCost (music_generation userID req) = 1"
  by (simp_all add: music_generation_def)

lemma video_generation_fields [simp]:
  "g_Type (video_generation userID req model duration resolution creditCost) = TypeVideo"
  "g_Status (video_generation userID req model duration resolution creditCost) = StatusProcessing"
  "g_CreditsCost (video_generation userID req model duration resolution creditCost) = creditCost"
  by (simp_all add: video_generation_def)

text \<open>What the operations on the world leave alone.\<close>

lemma notify_fields [simp]:
  "users (notify userID m w) = users w"
  "generations (notify userID m w) = generations w"
  "next_generation_id (notify userID m w) = next_generation_id w"
  "credit_transactions (notify userID m w) = credit_transactions w"
  "hub (notify userID m w) = hub w"
  "tasks (notify userID m w) = tasks w"
  by (simp_all add: notify_def)

lemma db_Save_fields [simp]:
  "users (db_Save res g w) = users w"
  "generations (db_Save None g w) = save_rows g (generations w)"
  "generations (db_Save (Some err) g w) = generations w"
  "next_generation_id (db_Save res g w) = next_generation_id w"
  "credit_transactions (db_Save res g w) = credit_transactions w"
  "hub (db_Save res g w) = hub w"
  "tasks (db_Save res g w) = tasks w"
  by (simp_all add: db_Save_def split: option.splits)

lemma db_Create_generation_fields [simp]:
  "fst (db_Create_generation g w) = g\<lparr> g_ID := next_generation_id w \<rparr>"
  "users (snd (db_Create_generation g w)) = users w"
  "generations (snd (db_Create_generation g w)) = generations w @ [g\<lparr> g_ID := next_generation_id w \<rparr>]"
  "next_generation_id (snd (db_Create_generation g w)) = Suc (next_generation_id w)"
  "credit_transactions (snd (db_Create_generation g w)) = credit_transactions w"
  "hub (snd (db_Create_generation g w)) = hub w"
  "tasks (snd (db_Create_generation g w)) = tasks w"
  by (simp_all add: db_Create_generation_def Let_def)

lemma db_Update_credits_fields [simp]:
  "generations (db_Update_credits res user n w) = generations w"
  "next_generation_id (db_Update_credits res user n w) = next_generation_id w"
  "credit_transactions (db_Update_credits res user n w) = credit_transactions w"
  "hub (db_Update_credits res user n w) = hub w"
  "tasks (db_Update_credits res user n w) = tasks w"
  by (simp_all add: db_Update_credits_def split: option.splits)

lemma db_Create_transaction_fields [simp]:
  "users (db_Create_transaction res ct w) = users w"
  "generations (db_Create_transaction res ct w) = generations w"
  "next_generation_id (db_Create_transaction res ct w) = next_generation_id w"
  "credit_transactions (db_Create_transaction None ct w) = credit_transactions w @ [ct]"
  "credit_transactions (db_Create_transaction (Some err) ct w) = credit_transactions w"
  "hub (db_Create_transaction res ct w) = hub w"
  "tasks (db_Create_transaction res ct w) = tasks w"
  by (simp_all add: db_Create_transaction_def split: option.splits)

lemma db_accepts_fields [simp]:
  "db_accepts env \<Longrightarrow> e_dbSave env = None"
  "db_accepts env \<Longrightarrow> e_dbCreate env = None"
  by (simp_all add: db_accepts_def)

text \<open>The handlers in closed form, one lemma for each way out.\<close>

lemma GenerateMusic_rejected:
  "users w userID = None \<Longrightarrow>
     GenerateMusic apiKey createOK userID req w = (ErrorResponse 404 ''Not Found'' ''User not found'', w)"
  "users w userID = Some user \<Longrightarrow> u_Credits user < 1 \<Longrightarrow>
     GenerateMusic apiKey createOK userID req w
       = (ErrorResponse 402 ''Payment Required'' ''Insufficient credits. Please upgrade your plan.'', w)"
  "users w userID = Some user \<Longrightarrow> \<not> u_Credits user < 1 \<Longrightarrow> \<not> createOK \<Longrightarrow>
     GenerateMusic apiKey createOK userID req w
       = (ErrorResponse 500 ''Internal Server Error'' ''Failed to create generation'', w)"
  by (simp_all add: GenerateMusic_def)

lemma GenerateMusic_demo:
  assumes "users w userID = Some user" "\<not> u_Credits user < 1" "createOK" "\<not> IsConfigured apiKey"
  shows "GenerateMusic apiKey createOK userID req w =
    (GenerationResponse 200 ''Music generated (demo mode)''
       ((music_generation userID req)\<lparr> g_ID := next_generation_id w, g_Status := StatusCompleted,
          g_OutputURL := ''https://www.soundhelix.com/examples/mp3/SoundHelix-Song-1.mp3'' \<rparr>),
     notify userID (Message ''generation_completed''
         ((music_generation userID req)\<lparr> g_ID := next_generation_id w, g_Status := StatusCompleted,
            g_OutputURL := ''https://www.soundhelix.com/examples/mp3/SoundHelix-Song-1.mp3'' \<rparr>) [])
       (db_Save None ((music_generation userID req)\<lparr> g_ID := next_generation_id w, g_Status := StatusCompleted,
            g_OutputURL := ''https://www.soundhelix.com/examples/mp3/SoundHelix-Song-1.mp3'' \<rparr>)
         (notify userID (Message ''generation_started''
              ((music_generation userID req)\<lparr> g_ID := next_generation_id w \<rparr>) [])
            (snd (db_Create_generation (music_generation userID req) w)))))"
  using assms by (simp add: GenerateMusic_def Let_def split_def)

lemma GenerateMusic_accepted:
  assumes "users w userID = Some user" "\<not> u_Credits user < 1" "createOK" "IsConfigured apiKey"
  shows "GenerateMusic apiKey createOK userID req w =
    (GenerationResponse 202 ''Music generation started''
       ((music_generation userID req)\<lparr> g_ID := next_generation_id w \<rparr>),
     (notify userID (Message ''generation_started''
          ((music_generation userID req)\<lparr> g_ID := next_generation_id w \<rparr>) [])
        (snd (db_Create_generation (music_generation userID req) w)))
       \<lparr> tasks := tasks w @ [Music \<lparr> mt_userID = userID, mt_user = user, mt_req = req,
            mt_generation = (music_generation userID req)\<lparr> g_ID := next_generation_id w \<rparr> \<rparr>] \<rparr>)"
  using assms by (simp add: GenerateMusic_def Let_def split_def)

lemma GenerateMusic_cases [consumes 0, case_names rejected demo accepted]:
  obtains (rejected) code err msg where
      "GenerateMusic apiKey createOK userID req w = (ErrorResponse code err msg, w)"
    | (demo) user g where
      "users w userID = Some user" "1 \<le> u_Credits user" "\<not> IsConfigured apiKey"
      "g = (music_generation userID req)\<lparr> g_ID := next_generation_id w, g_Status := StatusCompleted,
          g_OutputURL := ''https://www.soundhelix.com/examples/mp3/SoundHelix-Song-1.mp3'' \<rparr>"
      "GenerateMusic apiKey createOK userID req w =
         (GenerationResponse 200 ''Music generated (demo mode)'' g,
          notify userID (Message ''generation_completed'' g [])
            (db_Save None g (notify userID (Message ''generation_started''
                 ((music_generation userID req)\<lparr> g_ID := next_generation_id w \<rparr>) [])
               (snd (db_Create_generation (music_generation userID req) w)))))"
    | (accepted) user g where
      "users w userID = Some user" "1 \<le> u_Credits user" "IsConfigured apiKey"
      "g = (music_generation userID req)\<lparr> g_ID := next_generation_id w \<rparr>"
      "GenerateMusic apiKey createOK userID req w =
         (GenerationResponse 202 ''Music generation started'' g,
          (notify userID (Message ''generation_started'' g [])
             (snd (db_Create_generation (music_generation userID req) w)))
            \<lparr> tasks := tasks w @ [Music \<lparr> mt_userID = userID, mt_user = user, mt_req = req,
                 mt_generation = g \<rparr>] \<rparr>)"
proof (cases "users w userID")
  case None
  then show ?thesis using rejected GenerateMusic_rejected(1) by blast
next
  case (Some user)
  show ?thesis
  proof (cases "u_Credits user < 1")
    case True
    with Some show ?thesis using rejected GenerateMusic_rejected(2) by blast
  next
    case False
    show ?thesis
    proof (cases createOK)
      case no: False
      with Some False show ?thesis using rejected GenerateMusic_rejected(3) by blast
    next
      case True
      show ?thesis
      proof (cases "IsConfigured apiKey")
        case c: True
        show ?thesis
          by (rule accepted [OF Some _ c refl]) (use False GenerateMusic_accepted [OF Some False True c] in simp_all)
      next
        case c: False
        show ?thesis
          by (rule demo [OF Some _ c refl]) (use False GenerateMusic_demo [OF Some False True c] in simp_all)
      qed
    qed
  qed
qed

text \<open>The model, duration and resolution a video request stands for, and its cost.\<close>

lemma GenerateVideo_rejected:
  "users w userID = None \<Longrightarrow>
     GenerateVideo apiKey createOK userID req w = (ErrorResponse 404 ''Not Found'' ''User not found'', w)"
  "users w userID = Some user \<Longrightarrow> u_Credits user < (if vreq_Narration req \<noteq> [] then 3 else 2) \<Longrightarrow>
     GenerateVideo apiKey createOK userID req w
       = (ErrorResponse 402 ''Payment Required'' ''Insufficient credits. Please upgrade your plan.'', w)"
  "users w userID = Some user \<Longrightarrow> \<not> u_Credits user < (if vreq_Narration req \<noteq> [] then 3 else 2) \<Longrightarrow>
   vreq_Narration req \<noteq> [] \<Longrightarrow>
   snd (CalculateOptimalSpeed (vreq_Narration req) (if vreq_Duration req = 0 then 6 else vreq_Duration req))
     = Some ErrNarrationTooLong \<Longrightarrow>
     GenerateVideo apiKey createOK userID req w
       = (ErrorResponse 400 ''Narration Too Long''
           (''Narration has '' @ show_int (int (length (Fields (vreq_Narration req)))) @ '' words, max ~''
              @ show_int (go_int (fmul (fmul (float64 (if vreq_Duration req = 0 then 6 else vreq_Duration req)) (5 / 2)) (f64 (13 / 10))))
              @ '' words for '' @ show_int (if vreq_Duration req = 0 then 6 else vreq_Duration req)
              @ ''s video.''), w)"
  "users w userID = Some user \<Longrightarrow> \<not> u_Credits user < (if vreq_Narration req \<noteq> [] then 3 else 2) \<Longrightarrow>
   \<not> (vreq_Narration req \<noteq> [] \<and>
      snd (CalculateOptimalSpeed (vreq_Narration req) (if vreq_Duration req = 0 then 6 else vreq_Duration req))
        = Some ErrNarrationTooLong) \<Longrightarrow> \<not> createOK \<Longrightarrow>
     GenerateVideo apiKey createOK userID req w
       = (ErrorResponse 500 ''Internal Server Error'' ''Failed to create generation'', w)"
  by (simp_all add: GenerateVideo_def Let_def)

lemma GenerateVideo_created:
  assumes "users w userID = Some user"
    and "\<not> u_Credits user < (if vreq_Narration req \<noteq> [] then 3 else 2)"
    and "\<not> (vreq_Narration req \<noteq> [] \<and>
      snd (CalculateOptimalSpeed (vreq_Narration req) (if vreq_Duration req = 0 then 6 else vreq_Duration req))
        = Some ErrNarrationTooLong)"
    and "createOK"
    and "g = (video_generation userID req (if vreq_Model req = [] then ''video-01'' else vreq_Model req)
          (if vreq_Duration req = 0 then 6 else vreq_Duration req)
          (if vreq_Resolution req = [] then ''768P'' else vreq_Resolution req)
          (if vreq_Narration req \<noteq> [] then 3 else 2))\<lparr> g_ID := next_generation_id w \<rparr>"
    and "w1 = notify userID (Message ''generation_started'' g [])
          (snd (db_Create_generation (video_generation userID req
             (if vreq_Model req = [] then ''video-01'' else vreq_Model req)
             (if vreq_Duration req = 0 then 6 else vreq_Duration req)
             (if vreq_Resolution req = [] then ''768P'' else vreq_Resolution req)
             (if vreq_Narration req \<noteq> [] then 3 else 2)) w))"
  shows "\<not> IsConfigured apiKey \<Longrightarrow> GenerateVideo apiKey createOK userID req w =
      (GenerationResponse 200 ''Video generated (demo mode)''
         (g\<lparr> g_Status := StatusCompleted, g_OutputURL := ''https://www.w3schools.com/html/mov_bbb.mp4'' \<rparr>),
       notify userID (Message ''generation_completed''
           (g\<lparr> g_Status := StatusCompleted, g_OutputURL := ''https://www.w3schools.com/html/mov_bbb.mp4'' \<rparr>) [])
         (db_Save None (g\<lparr> g_Status := StatusCompleted,
             g_OutputURL := ''https://www.w3schools.com/html/mov_bbb.mp4'' \<rparr>) w1))"
    and "IsConfigured apiKey \<Longrightarrow> GenerateVideo apiKey createOK userID req w =
      (GenerationResponse 202 ''Video generation started'' g,
       w1\<lparr> tasks := tasks w1 @ [Video \<lparr> vt_userID = userID, vt_user = user, vt_req = req,
              vt_generation = g,
              vt_model = (if vreq_Model req = [] then ''video-01'' else vreq_Model req),
              vt_duration = (if vreq_Duration req = 0 then 6 else vreq_Duration req),
              vt_resolution = (if vreq_Resolution req = [] then ''768P'' else vreq_Resolution req),
              vt_creditCost = (if vreq_Narration req \<noteq> [] then 3 else 2) \<rparr>] \<rparr>)"
  using assms by (simp_all add: GenerateVideo_def Let_def split_def)

text \<open>
  C6. A music job is created with credit cost 1 and a video job with credit cost 2, or
  3 when the request has narration text; and whenever the requesting user's balance is
  below that cost, the handler answers 402 Payment Required ("Insufficient credits")
  and returns the world it was given: no job record, no balance change, no ledger
  entry, no notification, no goroutine.
\<close>

theorem C6_credit_cost_and_insufficient_credits:
  "(users w userID = Some user \<and> u_Credits user < 1 \<longrightarrow>
      GenerateMusic apiKey createOK userID mreq w
        = (ErrorResponse 402 ''Payment Required'' ''Insufficient credits. Please upgrade your plan.'', w))
   \<and> (users w userID = Some user \<and> u_Credits user < (if vreq_Narration vreq \<noteq> [] then 3 else 2) \<longrightarrow>
      GenerateVideo apiKey createOK userID vreq w
        = (ErrorResponse 402 ''Payment Required'' ''Insufficient credits. Please upgrade your plan.'', w))
   \<and> (GenerateMusic apiKey createOK userID mreq w = (GenerationResponse code msg g, w') \<longrightarrow>
      g_Type g = TypeMusic \<and> g_CreditsCost g = 1 \<and> g \<in> set (generations w')
      \<and> (\<exists>user. users w userID = Some user \<and> 1 \<le> u_Credits user))
   \<and> (GenerateVideo apiKey createOK userID vreq w = (GenerationResponse code msg g, w') \<longrightarrow>
      g_Type g = TypeVideo \<and> g_CreditsCost g = (if vreq_Narration vreq \<noteq> [] then 3 else 2)
      \<and> g \<in> set (generations w')
      \<and> (\<exists>user. users w userID = Some user \<and> (if vreq_Narration vreq \<noteq> [] then 3 else 2) \<le> u_Credits user))"
proof -
  have m: "users w userID = Some user \<and> u_Credits user < 1 \<longrightarrow>
      GenerateMusic apiKey createOK userID mreq w
        = (ErrorResponse 402 ''Payment Required'' ''Insufficient credits. Please upgrade your plan.'', w)"
    by (simp add: GenerateMusic_def)
  have v: "users w userID = Some user \<and> u_Credits user < (if vreq_Narration vreq \<noteq> [] then 3 else 2) \<longrightarrow>
      GenerateVideo apiKey createOK userID vreq w
        = (ErrorResponse 402 ''Payment Required'' ''Insufficient credits. Please upgrade your plan.'', w)"
    by (simp add: GenerateVideo_def Let_def)
  have mc: "GenerateMusic apiKey createOK userID mreq w = (GenerationResponse code msg g, w') \<longrightarrow>
      g_Type g = TypeMusic \<and> g_CreditsCost g = 1 \<and> g \<in> set (generations w')
      \<and> (\<exists>user. users w userID = Some user \<and> 1 \<le> u_Credits user)"
  proof (cases apiKey createOK userID mreq w rule: GenerateMusic_cases)
    case (rejected code err msg)
    then show ?thesis by simp
  next
    case (demo user g')
    then show ?thesis by (auto intro!: generations_save_rows_mem)
  next
    case (accepted user g')
    then show ?thesis by auto
  qed
  have vc: "GenerateVideo apiKey createOK userID vreq w = (GenerationResponse code msg g, w') \<longrightarrow>
      g_Type g = TypeVideo \<and> g_CreditsCost g = (if vreq_Narration vreq \<noteq> [] then 3 else 2)
      \<and> g \<in> set (generations w')
      \<and> (\<exists>user. users w userID = Some user \<and> (if vreq_Narration vreq \<noteq> [] then 3 else 2) \<le> u_Credits user)"
  proof (cases "users w userID")
    case None
    then show ?thesis by (simp add: GenerateVideo_rejected(1))
  next
    case (Some user)
    show ?thesis
    proof (cases "u_Credits user < (if vreq_Narration vreq \<noteq> [] then 3 else 2)")
      case True
      with Some show ?thesis by (simp add: GenerateVideo_rejected(2))
    next
      case cr: False
      show ?thesis
      proof (cases "vreq_Narration vreq \<noteq> [] \<and>
          snd (CalculateOptimalSpeed (vreq_Narration vreq) (if vreq_Duration vreq = 0 then 6 else vreq_Duration vreq))
            = Some ErrNarrationTooLong")
        case True
        with Some cr show ?thesis by (simp add: GenerateVideo_rejected(3))
      next
        case nl: False
        show ?thesis
        proof (cases createOK)
          case False
          with Some cr nl show ?thesis by (simp add: GenerateVideo_rejected(4))
        next
          case True
          note c = GenerateVideo_created [OF Some cr nl True refl refl, of apiKey]
          show ?thesis
          proof (cases "IsConfigured apiKey")
            case True
            from c(2) [OF True] Some cr show ?thesis by auto
          next
            case False
            from c(1) [OF False] Some cr show ?thesis by (auto intro!: generations_save_rows_mem)
          qed
        qed
      qed
    qed
  qed
  show ?thesis by (intro conjI) (fact m v mc vc)+
qed


text \<open>
  C7, as stated: whenever the calculator reports NarrationTooLong for a video submission
  with narration, the request is rejected with the message about the word count. It is
  not when the user cannot pay: the credit check comes first, and a user with 2 credits
  who sends a 30-word narration for a 6-second video gets 402 Payment Required. The
  figure the message gives as maximum for 6 seconds is 19, while the calculator accepts
  20 words (at speed 1.3).
\<close>

theorem C7_credit_check_first_counterexample:
  "vreq_Narration (video_request (concat (replicate 30 ''word ''))) \<noteq> []
   \<and> snd (CalculateOptimalSpeed (vreq_Narration (video_request (concat (replicate 30 ''word ''))))
        (if vreq_Duration (video_request (concat (replicate 30 ''word ''))) = 0 then 6
         else vreq_Duration (video_request (concat (replicate 30 ''word ''))))) = Some ErrNarrationTooLong
   \<and> GenerateVideo ''key'' True 1 (video_request (concat (replicate 30 ''word ''))) (world_of_credits 2)
      = (ErrorResponse 402 ''Payment Required'' ''Insufficient credits. Please upgrade your plan.'',
         world_of_credits 2)
   \<and> go_int (fmul (fmul (float64 6) (5 / 2)) (f64 (13 / 10))) = 19
   \<and> CalculateOptimalSpeed (concat (replicate 20 ''word '')) 6 = (f64 (13 / 10), None)"
proof -
  have n: "concat (replicate 30 ''word '') \<noteq> []" by code_simp
  have s: "snd (CalculateOptimalSpeed (concat (replicate 30 ''word '')) 6) = Some ErrNarrationTooLong"
    by code_simp
  have m: "go_int (fmul (fmul (float64 6) (5 / 2)) (f64 (13 / 10))) = 19" by code_simp
  have t: "CalculateOptimalSpeed (concat (replicate 20 ''word '')) 6 = (f64 (13 / 10), None)" by code_simp
  have u: "users (world_of_credits 2) 1 = Some \<lparr> u_ID = 1, u_Credits = 2 \<rparr>"
    by (simp add: world_of_credits_def initial_world_def)
  show ?thesis
    using n s m t GenerateVideo_rejected(2) [OF u, of "video_request (concat (replicate 30 ''word ''))" "''key''" True]
    by (simp add: video_request_def)
qed

text \<open>
  C7, amended. For every video submission with narration for which the speed calculator,
  run on the narration and the duration (6 when the request gives 0), reports
  NarrationTooLong: the handler returns the world it was given (no job record, no other
  change) and answers with an error; and when the user exists and holds the 3 credits
  of a narrated video, so that the submission reaches the calculator, the answer is 400
  "Narration Too Long" with the message "Narration has W words, max ~M words for Ds
  video.", W the narration's word count, D the duration and M = int(D * 2.5 * 1.3).
\<close>

theorem C7_narration_too_long_rejected:
  "vreq_Narration req \<noteq> []
   \<and> snd (CalculateOptimalSpeed (vreq_Narration req) (if vreq_Duration req = 0 then 6 else vreq_Duration req))
        = Some ErrNarrationTooLong \<longrightarrow>
   snd (GenerateVideo apiKey createOK userID req w) = w
   \<and> (\<exists>code err msg. fst (GenerateVideo apiKey createOK userID req w) = ErrorResponse code err msg)
   \<and> (\<forall>user. users w userID = Some user \<and> 3 \<le> u_Credits user \<longrightarrow>
        fst (GenerateVideo apiKey createOK userID req w)
          = ErrorResponse 400 ''Narration Too Long''
              (''Narration has '' @ show_int (int (length (Fields (vreq_Narration req)))) @ '' words, max ~''
                 @ show_int (go_int (fmul (fmul (float64 (if vreq_Duration req = 0 then 6 else vreq_Duration req)) (5 / 2)) (f64 (13 / 10))))
                 @ '' words for '' @ show_int (if vreq_Duration req = 0 then 6 else vreq_Duration req)
                 @ ''s video.''))"
proof (intro impI)
  assume a: "vreq_Narration req \<noteq> []
   \<and> snd (CalculateOptimalSpeed (vreq_Narration req) (if vreq_Duration req = 0 then 6 else vreq_Duration req))
        = Some ErrNarrationTooLong"
  show "snd (GenerateVideo apiKey createOK userID req w) = w
   \<and> (\<exists>code err msg. fst (GenerateVideo apiKey createOK userID req w) = ErrorResponse code err msg)
   \<and> (\<forall>user. users w userID = Some user \<and> 3 \<le> u_Credits user \<longrightarrow>
        fst (GenerateVideo apiKey createOK userID req w)
          = ErrorResponse 400 ''Narration Too Long''
              (''Narration has '' @ show_int (int (length (Fields (vreq_Narration req)))) @ '' words, max ~''
                 @ show_int (go_int (fmul (fmul (float64 (if vreq_Duration req = 0 then 6 else vreq_Duration req)) (5 / 2)) (f64 (13 / 10))))
                 @ '' words for '' @ show_int (if vreq_Duration req = 0 then 6 else vreq_Duration req)
                 @ ''s video.''))"
  proof (cases "users w userID")
    case None
    then show ?thesis by (simp add: GenerateVideo_rejected(1))
  next
    case (Some user)
    show ?thesis
    proof (cases "u_Credits user < (if vreq_Narration req \<noteq> [] then 3 else 2)")
      case True
      with Some a show ?thesis by (simp add: GenerateVideo_rejected(2))
    next
      case False
      with Some a show ?thesis by (simp add: GenerateVideo_rejected(3))
    qed
  qed
qed

theorem C7_narration_too_long_rejected_witness:
  "vreq_Narration (video_request (concat (replicate 30 ''word ''))) \<noteq> []
   \<and> users (world_of_credits 10) 1 = Some \<lparr> u_ID = 1, u_Credits = 10 \<rparr>
   \<and> GenerateVideo ''key'' True 1 (video_request (concat (replicate 30 ''word ''))) (world_of_credits 10)
      = (ErrorResponse 400 ''Narration Too Long'' ''Narration has 30 words, max ~19 words for 6s video.'',
         world_of_credits 10)"
proof -
  have n: "concat (replicate 30 ''word '') \<noteq> []" by code_simp
  have s: "snd (CalculateOptimalSpeed (concat (replicate 30 ''word '')) 6) = Some ErrNarrationTooLong"
    by code_simp
  have l: "show_int (int (length (Fields (concat (replicate 30 ''word ''))))) = ''30''" by code_simp
  have m: "show_int (go_int (fmul (fmul (float64 6) (5 / 2)) (f64 (13 / 10)))) = ''19''" by code_simp
  have d: "show_int 6 = ''6''" by code_simp
  have u: "users (world_of_credits 10) 1 = Some \<lparr> u_ID = 1, u_Credits = 10 \<rparr>"
    by (simp add: world_of_credits_def initial_world_def)
  show ?thesis
    using n s l m d u
      C7_narration_too_long_rejected [of "video_request (concat (replicate 30 ''word ''))" "''key''" True 1
        "world_of_credits 10"]
    by (simp add: video_request_def prod_eq_iff)
qed


section \<open>Properties of the ledger\<close>


text \<open>
  C2. User 1 holds 10 credits and submits two music jobs before either pipeline has
  finished; both pipelines then succeed. The live balance ends at 8, the sum of the
  amounts is -2, and each entry satisfies balance_after = balance_before + amount; but
  both entries record balance_before = 10 and balance_after = 9, the credits read when
  the requests came in: the balance_after of the most recent entry is 9, not 8.
\<close>

theorem C2_stale_balance_snapshot:
  "map_option u_Credits (users (run ''key''
       [SubmitMusic True 1 music_request, SubmitMusic True 1 music_request,
        Run 1 provider_succeeds, Run 2 provider_succeeds] (world_of_credits 10)) 1) = Some 8
   \<and> map (\<lambda>ct. (ct_GenerationID ct, ct_BalanceBefore ct, ct_Amount ct, ct_BalanceAfter ct))
        (credit_transactions (run ''key''
          [SubmitMusic True 1 music_request, SubmitMusic True 1 music_request,
           Run 1 provider_succeeds, Run 2 provider_succeeds] (world_of_credits 10)))
      = [(Some 1, 10, - 1, 9), (Some 2, 10, - 1, 9)]
   \<and> map g_Status (generations (run ''key''
          [SubmitMusic True 1 music_request, SubmitMusic True 1 music_request,
           Run 1 provider_succeeds, Run 2 provider_succeeds] (world_of_credits 10)))
      = [StatusCompleted, StatusCompleted]"
  by code_simp











lemma generation_failed_fields [simp]:
  "users (generation_failed env userID g msg w) = users w"
  "db_accepts env \<Longrightarrow> generations (generation_failed env userID g msg w)
     = save_rows (g\<lparr> g_Status := StatusFailed, g_ErrorMessage := msg \<rparr>) (generations w)"
  "next_generation_id (generation_failed env userID g msg w) = next_generation_id w"
  "credit_transactions (generation_failed env userID g msg w) = credit_transactions w"
  "hub (generation_failed env userID g msg w) = hub w"
  "tasks (generation_failed env userID g msg w) = tasks w"
  by (simp_all add: generation_failed_def Let_def)

lemma music_completed_fields [simp]:
  "db_accepts env \<Longrightarrow> generations (music_completed env userID user g extra url w)
     = save_rows (g\<lparr> g_Status := StatusCompleted, g_Metadata := extra \<rparr>) (generations w)"
  "next_generation_id (music_completed env userID user g extra url w) = next_generation_id w"
  "db_accepts env \<Longrightarrow> credit_transactions (music_completed env userID user g extra url w)
     = credit_transactions w @
        [\<lparr> ct_UserID = userID, ct_Amount = - 1, ct_Type = ''usage'',
           ct_Description = ''Music generation'', ct_GenerationID = Some (g_ID g),
           ct_BalanceBefore = u_Credits user, ct_BalanceAfter = u_Credits user - 1 \<rparr>]"
  "hub (music_completed env userID user g extra url w) = hub w"
  "tasks (music_completed env userID user g extra url w) = tasks w"
  by (simp_all add: music_completed_def Let_def)

lemma video_completed_fields [simp]:
  "db_accepts env \<Longrightarrow> generations (video_completed env userID user cost g url w)
     = save_rows (g\<lparr> g_Status := StatusCompleted, g_OutputURL := url \<rparr>) (generations w)"
  "next_generation_id (video_completed env userID user cost g url w) = next_generation_id w"
  "db_accepts env \<Longrightarrow> credit_transactions (video_completed env userID user cost g url w)
     = credit_transactions w @
        [\<lparr> ct_UserID = userID, ct_Amount = - cost, ct_Type = ''usage'',
           ct_Description = ''Video generation'', ct_GenerationID = Some (g_ID g),
           ct_BalanceBefore = u_Credits user, ct_BalanceAfter = u_Credits user - cost \<rparr>]"
  "hub (video_completed env userID user cost g url w) = hub w"
  "tasks (video_completed env userID user cost g url w) = tasks w"
  by (simp_all add: video_completed_def Let_def)











lemma has_entry_iff: "has_entry w gid \<longleftrightarrow> (\<exists>ct \<in> set (credit_transactions w). ct_GenerationID ct = Some gid)"
  by (simp add: has_entry_def list_ex_iff)

lemma debited_iff:
  "debited w g \<longleftrightarrow>
    (\<exists>ct \<in> set (credit_transactions w). ct_GenerationID ct = Some (g_ID g) \<and> ct_Amount ct = - g_CreditsCost g)"
  by (simp add: debited_def list_ex_iff)

lemma ledger_ok_iff:
  "ledger_ok w \<longleftrightarrow>
    (distinct (map g_ID (generations w))
     \<and> (\<forall>g \<in> set (generations w). g_ID g < next_generation_id w)
     \<and> (\<forall>ct \<in> set (credit_transactions w). \<forall>gid. ct_GenerationID ct = Some gid \<longrightarrow> gid < next_generation_id w)
     \<and> distinct (map task_id (tasks w))
     \<and> (\<forall>t \<in> set (tasks w). task_cost_ok t
            \<and> (\<exists>g \<in> set (generations w). g_ID g = task_id t \<and> g_Status g = StatusProcessing))
     \<and> (\<forall>g \<in> set (generations w).
            (g_Status g = StatusCompleted \<longrightarrow> debited w g)
            \<and> (g_Status g \<noteq> StatusCompleted \<longrightarrow> \<not> has_entry w (g_ID g))))"
  by (auto simp: ledger_ok_def list_all_iff list_ex_iff split: option.splits)



lemma ledger_ok_hub [simp]: "ledger_ok (w\<lparr> hub := h \<rparr>) = ledger_ok w"
  by (simp add: ledger_ok_iff has_entry_iff debited_iff)













text \<open>
  The error of \<open>db.Save\<close> that the goroutines drop. The provider succeeds at every call
  of a music job and the database refuses the save of the final status: the row stays
  Processing, and the credit is debited and the ledger entry written all the same. This
  run does not meet the condition of the amended claim.
\<close>

lemma dropped_save_error_example:
  "\<not> list_all writes_accepted
       [SubmitMusic True 1 music_request,
        Run 1 (provider_succeeds\<lparr> e_dbSave := Some (ErrOther ''value too long for type character varying(500)'') \<rparr>)]
   \<and> map (\<lambda>g. (g_ID g, g_Status g))
        (generations (run ''key''
           [SubmitMusic True 1 music_request,
            Run 1 (provider_succeeds\<lparr> e_dbSave := Some (ErrOther ''value too long for type character varying(500)'') \<rparr>)]
           (world_of_credits 10)))
      = [(1, StatusProcessing)]
   \<and> map (\<lambda>ct. (ct_GenerationID ct, ct_Amount ct))
        (credit_transactions (run ''key''
           [SubmitMusic True 1 music_request,
            Run 1 (provider_succeeds\<lparr> e_dbSave := Some (ErrOther ''value too long for type character varying(500)'') \<rparr>)]
           (world_of_credits 10)))
      = [(Some 1, - 1)]
   \<and> map_option u_Credits
        (users (run ''key''
           [SubmitMusic True 1 music_request,
            Run 1 (provider_succeeds\<lparr> e_dbSave := Some (ErrOther ''value too long for type character varying(500)'') \<rparr>)]
           (world_of_credits 10)) 1)
      = Some 9"
  by code_simp


text \<open>C6 at concrete inputs: a user without credits, a user with 2 credits asking for a
  narrated video, and a user with 10 credits whose music and narrated video jobs are
  created.\<close>

theorem C6_credit_cost_and_insufficient_credits_witness:
  "users (world_of_credits 0) 1 = Some \<lparr> u_ID = 1, u_Credits = 0 \<rparr>
   \<and> GenerateMusic ''key'' True 1 music_request (world_of_credits 0)
      = (ErrorResponse 402 ''Payment Required'' ''Insufficient credits. Please upgrade your plan.'',
         world_of_credits 0)
   \<and> users (world_of_credits 2) 1 = Some \<lparr> u_ID = 1, u_Credits = 2 \<rparr>
   \<and> GenerateVideo ''key'' True 1 (video_request ''hello world'') (world_of_credits 2)
      = (ErrorResponse 402 ''Payment Required'' ''Insufficient credits. Please upgrade your plan.'',
         world_of_credits 2)
   \<and> g_CreditsCost ((music_generation 1 music_request)\<lparr> g_ID := 1 \<rparr>) = 1
   \<and> fst (GenerateMusic ''key'' True 1 music_request (world_of_credits 10))
      = GenerationResponse 202 ''Music generation started'' ((music_generation 1 music_request)\<lparr> g_ID := 1 \<rparr>)
   \<and> (music_generation 1 music_request)\<lparr> g_ID := 1 \<rparr>
      \<in> set (generations (snd (GenerateMusic ''key'' True 1 music_request (world_of_credits 10))))
   \<and> g_CreditsCost ((video_generation 1 (video_request ''hello world'') ''video-01'' 6 ''768P'' 3)\<lparr> g_ID := 1 \<rparr>) = 3
   \<and> fst (GenerateVideo ''key'' True 1 (video_request ''hello world'') (world_of_credits 10))
      = GenerationResponse 202 ''Video generation started''
          ((video_generation 1 (video_request ''hello world'') ''video-01'' 6 ''768P'' 3)\<lparr> g_ID := 1 \<rparr>)"
proof -
  have u0: "users (world_of_credits 0) 1 = Some \<lparr> u_ID = 1, u_Credits = 0 \<rparr>"
    and u2: "users (world_of_credits 2) 1 = Some \<lparr> u_ID = 1, u_Credits = 2 \<rparr>"
    and u10: "users (world_of_credits 10) 1 = Some \<lparr> u_ID = 1, u_Credits = 10 \<rparr>"
    and n: "next_generation_id (world_of_credits 10) = 1"
    by (simp_all add: world_of_credits_def initial_world_def)
  have k: "IsConfigured ''key''" by (simp add: IsConfigured_def)
  have m: "GenerateMusic ''key'' True 1 music_request (world_of_credits 10)
      = (GenerationResponse 202 ''Music generation started'' ((music_generation 1 music_request)\<lparr> g_ID := 1 \<rparr>),
         snd (GenerateMusic ''key'' True 1 music_request (world_of_credits 10)))"
    using GenerateMusic_accepted [OF u10 _ _ k, of True music_request] by (simp add: n)
  have sp: "snd (CalculateOptimalSpeed ''hello world'' 6) = None" by code_simp
  have v: "GenerateVideo ''key'' True 1 (video_request ''hello world'') (world_of_credits 10)
      = (GenerationResponse 202 ''Video generation started''
           ((video_generation 1 (video_request ''hello world'') ''video-01'' 6 ''768P'' 3)\<lparr> g_ID := 1 \<rparr>),
         snd (GenerateVideo ''key'' True 1 (video_request ''hello world'') (world_of_credits 10)))"
    using GenerateVideo_created(2) [OF u10 _ _ _ refl refl k, of "video_request ''hello world''" True] sp
    by (simp add: n video_request_def)
  note i0 = C6_credit_cost_and_insufficient_credits [of "world_of_credits 0" 1 "\<lparr> u_ID = 1, u_Credits = 0 \<rparr>"
        "''key''" True music_request "video_request ''hello world''" 202 "[]"
        "music_generation 1 music_request" "world_of_credits 0"]
  note i2 = C6_credit_cost_and_insufficient_credits [of "world_of_credits 2" 1 "\<lparr> u_ID = 1, u_Credits = 2 \<rparr>"
        "''key''" True music_request "video_request ''hello world''" 202 "[]"
        "music_generation 1 music_request" "world_of_credits 2"]
  note im = C6_credit_cost_and_insufficient_credits [of "world_of_credits 10" 1 "\<lparr> u_ID = 1, u_Credits = 10 \<rparr>"
        "''key''" True music_request
        "video_request ''hello world''" 202 "''Music generation started''"
        "(music_generation 1 music_request)\<lparr> g_ID := 1 \<rparr>"
        "snd (GenerateMusic ''key'' True 1 music_request (world_of_credits 10))"]
  note iv = C6_credit_cost_and_insufficient_credits [of "world_of_credits 10" 1 "\<lparr> u_ID = 1, u_Credits = 10 \<rparr>"
        "''key''" True music_request
        "video_request ''hello world''" 202 "''Video generation started''"
        "(video_generation 1 (video_request ''hello world'') ''video-01'' 6 ''768P'' 3)\<lparr> g_ID := 1 \<rparr>"
        "snd (GenerateVideo ''key'' True 1 (video_request ''hello world'') (world_of_credits 10))"]
  have r0: "GenerateMusic ''key'' True 1 music_request (world_of_credits 0)
      = (ErrorResponse 402 ''Payment Required'' ''Insufficient credits. Please upgrade your plan.'',
         world_of_credits 0)"
    using i0 u0 by simp
  have r2: "GenerateVideo ''key'' True 1 (video_request ''hello world'') (world_of_credits 2)
      = (ErrorResponse 402 ''Payment Required'' ''Insufficient credits. Please upgrade your plan.'',
         world_of_credits 2)"
    using i2 u2 by (simp add: video_request_def)
  have rm: "g_CreditsCost ((music_generation 1 music_request)\<lparr> g_ID := 1 \<rparr>) = 1"
    "(music_generation 1 music_request)\<lparr> g_ID := 1 \<rparr>
      \<in> set (generations (snd (GenerateMusic ''key'' True 1 music_request (world_of_credits 10))))"
    using im m by blast+
  have rv: "g_CreditsCost ((video_generation 1 (video_request ''hello world'') ''video-01'' 6 ''768P'' 3)\<lparr> g_ID := 1 \<rparr>)
      = (if vreq_Narration (video_request ''hello world'') \<noteq> [] then 3 else 2)"
    using iv v by blast
  have mf: "fst (GenerateMusic ''key'' True 1 music_request (world_of_credits 10))
      = GenerationResponse 202 ''Music generation started'' ((music_generation 1 music_request)\<lparr> g_ID := 1 \<rparr>)"
    using m by (metis fst_conv)
  have vf: "fst (GenerateVideo ''key'' True 1 (video_request ''hello world'') (world_of_credits 10))
      = GenerationResponse 202 ''Video generation started''
          ((video_generation 1 (video_request ''hello world'') ''video-01'' 6 ''768P'' 3)\<lparr> g_ID := 1 \<rparr>)"
    using v by (metis fst_conv)
  have rv': "g_CreditsCost ((video_generation 1 (video_request ''hello world'') ''video-01'' 6 ''768P'' 3)\<lparr> g_ID := 1 \<rparr>) = 3"
    using rv by (simp add: video_request_def)
  show ?thesis
    by (intro conjI) (fact u0 r0 u2 r2 rm mf rv' vf)+
qed

end
